(* ===== verification/Prelude.thy ===== *)
theory Prelude
  imports
    Main
    "HOL-Library.List_Lexorder"
    "HOL-Library.Char_ord"
    "HOL-Library.Multiset"
begin

text \<open>
  Shared vocabulary of the development: how the Go values the program manipulates are
  represented, and the generic lemmas on lists, options and association lists that the
  component theories share.
  \<^item> A Go \<open>error\<close> is a value of \<open>go_error\<close>; a function returning only an error
    returns \<open>go_error option\<close> (\<open>None\<close> is \<open>nil\<close>).
  \<^item> A Go string is a \<open>string\<close> (a list of 8-bit characters); Go compares strings
    bytewise, which is the lexicographic order on \<open>char list\<close> given by
    \<open>List_Lexorder\<close> and \<open>Char_ord\<close>.
  \<^item> A Go \<open>map[string]V\<close> is an association list with distinct keys
    (\<open>'v go_map\<close>). Its order is the order in which a \<open>for range\<close> loop happens to
    visit the keys: Go randomises it, so every property that must not depend on it is
    stated for any two association lists that denote the same map.
  \<^item> A Go pointer field \<open>*string\<close> or \<open>*bool\<close> read as a value is an \<open>option\<close>:
    \<open>None\<close> is \<open>nil\<close>.
  \<^item> \<open>sort.Slice\<close> and \<open>sort.Strings\<close> are \<open>sort_key\<close> and \<open>sort\<close> (an insertion
    sort). Go's pattern-defeating quicksort switches to insertion sort below 13 elements,
    so on the inputs of this program (a task's few providers and services) both agree
    element for element; beyond that Go only promises a sorted permutation, which is what
    \<open>sort_slice_contract\<close> states.
\<close>

named_theorems go_simps "evaluation rules of the Go helper models"

datatype go_error = GoError string

type_synonym 'v go_map = "(string \<times> 'v) list"

definition go_map_ok :: "'v go_map \<Rightarrow> bool" where
  "go_map_ok m \<longleftrightarrow> distinct (map fst m)"

text \<open>The contract of Go's \<open>sort.Slice(xs, less)\<close> with \<open>less i j = key xs[i] < key xs[j]\<close>.\<close>

definition sort_slice_contract :: "('a \<Rightarrow> 'k::linorder) \<Rightarrow> 'a list \<Rightarrow> 'a list \<Rightarrow> bool" where
  "sort_slice_contract key xs ys \<longleftrightarrow> mset ys = mset xs \<and> sorted (map key ys)"

text \<open>
  The two pointer idioms of the configuration code:
  \<open>if o.F != nil { r.F = Copy(o.F) }\<close> and \<open>if c.F == nil { c.F = Value(d) }\<close>.
\<close>

definition override_if_set :: "'a option \<Rightarrow> 'a option \<Rightarrow> 'a option" where
  "override_if_set r v = (if v \<noteq> None then v else r)"

definition default_if_nil :: "'a \<Rightarrow> 'a option \<Rightarrow> 'a option" where
  "default_if_nil d x = (if x = None then Some d else x)"

subsection \<open>Lemmas on the pointer idioms\<close>

lemma override_if_set_simps [simp, go_simps]:
  "override_if_set r None = r"
  "override_if_set r (Some v) = Some v"
  by (simp_all add: override_if_set_def)

lemma default_if_nil_simps [simp, go_simps]:
  "default_if_nil d None = Some d"
  "default_if_nil d (Some v) = Some v"
  by (simp_all add: default_if_nil_def)

lemma override_if_set_assoc:
  "override_if_set (override_if_set a b) c = override_if_set a (override_if_set b c)"
  by (cases c) simp_all

lemma override_if_set_idem [simp]: "override_if_set a a = a"
  by (cases a) simp_all

lemma default_if_nil_not_None [simp]: "default_if_nil d x \<noteq> None"
  by (cases x) simp_all

lemma default_if_nil_idem [simp]: "default_if_nil d (default_if_nil d x) = default_if_nil d x"
  by (cases x) simp_all

lemma default_if_nil_override:
  "default_if_nil d (override_if_set a b) = override_if_set (default_if_nil d a) b"
  by (cases b) simp_all

subsection \<open>Lemmas on sorting\<close>

lemma sort_key_satisfies_contract: "sort_slice_contract key xs (sort_key key xs)"
  by (simp add: sort_slice_contract_def)

lemma sort_key_idem [simp]: "sort_key f (sort_key f xs) = sort_key f xs"
  by (rule sort_key_id_if_sorted) simp

lemma sort_key_mset_eq:
  assumes "mset xs = mset ys" and "inj_on f (set xs)"
  shows "sort_key f xs = sort_key f ys"
proof (rule sort_key_inj_key_eq)
  show "mset xs = mset (sort_key f ys)" using assms(1) by simp
  show "inj_on f (set xs)" by (rule assms(2))
  show "sorted (map f (sort_key f ys))" by simp
qed

lemma sort_contract_unique:
  assumes "sort_slice_contract key xs ys" and "inj_on key (set xs)"
  shows "ys = sort_key key xs"
  using assms by (metis sort_key_inj_key_eq sort_slice_contract_def)

lemma sort_distinct_keys_eq:
  assumes "go_map_ok m1" and "go_map_ok m2" and "map_of m1 = map_of m2"
  shows "sort (map fst m1) = sort (map fst m2)"
proof -
  have "set m1 = set m2"
    using assms by (simp add: go_map_ok_def map_of_inject_set)
  then have "set (map fst m1) = set (map fst m2)" by simp
  with assms(1,2) have "mset (map fst m1) = mset (map fst m2)"
    by (metis go_map_ok_def set_eq_iff_mset_eq_distinct)
  then show ?thesis by (metis properties_for_sort mset_sort sorted_sort)
qed

end
