(* ===== verification/MonitorConfig.thy ===== *)
theory MonitorConfig
  imports Prelude
begin

text \<open>
  The watch-source configuration of \<^verbatim>\<open>src/config/monitor_consul_kv.go\<close>: the struct
  \<^verbatim>\<open>ConsulKVMonitorConfig\<close> as the record \<open>consul_kv_monitor_config\<close> (each
  pointer field an \<open>option\<close>), the \<^verbatim>\<open>MonitorConfig\<close> interface value as
  \<open>'o monitor_iface\<close> (the nil interface is \<open>None\<close>; a non-nil interface holds a
  possibly nil pointer of a concrete kind; \<open>'o\<close> stands for the kinds defined outside
  this file), and the four methods \<open>kv_copy\<close>, \<open>kv_merge\<close>, \<open>kv_finalize\<close>,
  \<open>kv_validate\<close>. Values are immutable here, so the deep copies of \<^verbatim>\<open>StringCopy\<close>
  and \<^verbatim>\<open>BoolCopy\<close> are the values themselves.
  The lemmas: merge precedence and its behaviour on absent operands and on other kinds,
  merge over a sequence of fragments (each field is the last fragment that sets it),
  finalize fills every field and is idempotent, finalize commutes with a later merge,
  validate after finalize fails exactly on an empty path.
\<close>

record consul_kv_monitor_config =
  Path :: "string option"
  SourceIncludesVar :: "bool option"
  Recurse :: "bool option"
  Datacenter :: "string option"
  Namespace :: "string option"

datatype 'o monitor_config =
    ConsulKVMonitor "consul_kv_monitor_config option"
  | OtherMonitor "'o option"

type_synonym 'o monitor_iface = "'o monitor_config option"

definition consul_kv_monitor_type :: string where
  "consul_kv_monitor_type = ''consul-kv''"

text \<open>\<^verbatim>\<open>isConditionNil\<close>: a nil interface, or an interface holding a nil pointer.\<close>

definition is_condition_nil :: "'o monitor_iface \<Rightarrow> bool" where
  "is_condition_nil oc =
     (case oc of
        None \<Rightarrow> True
      | Some (ConsulKVMonitor c) \<Rightarrow> c = None
      | Some (OtherMonitor x) \<Rightarrow> x = None)"

definition kv_copy :: "consul_kv_monitor_config option \<Rightarrow> 'o monitor_iface" where
  "kv_copy c =
     (case c of
        None \<Rightarrow> None
      | Some c \<Rightarrow> Some (ConsulKVMonitor (Some
          \<lparr>Path = Path c, SourceIncludesVar = SourceIncludesVar c, Recurse = Recurse c,
           Datacenter = Datacenter c, Namespace = Namespace c\<rparr>)))"

text \<open>\<^verbatim>\<open>Copy\<close> of a configuration of another kind: nil to nil, otherwise an equal value.\<close>

definition other_copy :: "'o option \<Rightarrow> 'o monitor_iface" where
  "other_copy x = (case x of None \<Rightarrow> None | Some v \<Rightarrow> Some (OtherMonitor (Some v)))"

text \<open>The dynamic dispatch of \<^verbatim>\<open>o.Copy()\<close> on an interface value.\<close>

fun monitor_copy :: "'o monitor_config \<Rightarrow> 'o monitor_iface" where
  "monitor_copy (ConsulKVMonitor c) = kv_copy c"
| "monitor_copy (OtherMonitor x) = other_copy x"

text \<open>The field updates of \<^verbatim>\<open>Merge\<close> once both operands are consul-kv configurations.\<close>

definition merge_kv_fields ::
  "consul_kv_monitor_config \<Rightarrow> consul_kv_monitor_config \<Rightarrow> consul_kv_monitor_config" where
  "merge_kv_fields r2 o2 =
     r2\<lparr>Path := override_if_set (Path r2) (Path o2),
        SourceIncludesVar := override_if_set (SourceIncludesVar r2) (SourceIncludesVar o2),
        Recurse := override_if_set (Recurse r2) (Recurse o2),
        Datacenter := override_if_set (Datacenter r2) (Datacenter o2),
        Namespace := override_if_set (Namespace r2) (Namespace o2)\<rparr>"

definition kv_merge :: "consul_kv_monitor_config option \<Rightarrow> 'o monitor_iface \<Rightarrow> 'o monitor_iface" where
  "kv_merge c oc =
     (case c of
        None \<Rightarrow>
          (if is_condition_nil oc then None
           else (case oc of None \<Rightarrow> None | Some m \<Rightarrow> monitor_copy m))
      | Some c' \<Rightarrow>
          (if is_condition_nil oc then kv_copy c
           else (case oc of
                   Some (ConsulKVMonitor (Some o2)) \<Rightarrow>
                     Some (ConsulKVMonitor (Some (merge_kv_fields c' o2)))
                 | _ \<Rightarrow> kv_copy c)))"

definition kv_finalize :: "consul_kv_monitor_config option \<Rightarrow> consul_kv_monitor_config option" where
  "kv_finalize c =
     (case c of
        None \<Rightarrow> None
      | Some c \<Rightarrow> Some
          (c\<lparr>Path := default_if_nil '''' (Path c),
             SourceIncludesVar := default_if_nil False (SourceIncludesVar c),
             Recurse := default_if_nil False (Recurse c),
             Datacenter := default_if_nil '''' (Datacenter c),
             Namespace := default_if_nil '''' (Namespace c)\<rparr>))"

definition kv_validate :: "consul_kv_monitor_config option \<Rightarrow> go_error option" where
  "kv_validate c =
     (case c of
        None \<Rightarrow> None
      | Some c \<Rightarrow>
          (if Path c = None \<or> Path c = Some ''''
           then Some (GoError ''path is required for consul-kv condition'')
           else None))"

subsection \<open>Specification-level notions\<close>

text \<open>A finalized configuration has no unset field (the invariant \<^verbatim>\<open>Finalize\<close> promises).\<close>

definition kv_finalized :: "consul_kv_monitor_config \<Rightarrow> bool" where
  "kv_finalized c \<longleftrightarrow>
     Path c \<noteq> None \<and> SourceIncludesVar c \<noteq> None \<and> Recurse c \<noteq> None \<and>
     Datacenter c \<noteq> None \<and> Namespace c \<noteq> None"

text \<open>Reading back a consul-kv configuration from an interface value.\<close>

fun as_kv :: "'o monitor_iface \<Rightarrow> consul_kv_monitor_config option" where
  "as_kv (Some (ConsulKVMonitor c)) = c"
| "as_kv _ = None"

text \<open>
  A caller folding fragments into one configuration, \<^verbatim>\<open>c = c.Merge(o)\<close> for each
  fragment in order, and the value it is meant to compute: for each field, the value set by
  the last fragment that sets it.
\<close>

fun kv_merge_all ::
  "consul_kv_monitor_config option \<Rightarrow> consul_kv_monitor_config option list \<Rightarrow>
   consul_kv_monitor_config option" where
  "kv_merge_all c [] = c"
| "kv_merge_all c (oc # os) =
     kv_merge_all (as_kv (kv_merge c (Some (ConsulKVMonitor oc) :: unit monitor_iface))) os"

definition last_set :: "'a option list \<Rightarrow> 'a option" where
  "last_set xs = (case filter (\<lambda>x. x \<noteq> None) xs of [] \<Rightarrow> None | ys \<Rightarrow> last ys)"

subsection \<open>Evaluation lemmas\<close>

lemma is_condition_nil_simps [simp]:
  "is_condition_nil None"
  "is_condition_nil (Some (ConsulKVMonitor c)) \<longleftrightarrow> c = None"
  "is_condition_nil (Some (OtherMonitor x)) \<longleftrightarrow> x = None"
  by (simp_all add: is_condition_nil_def)

lemma kv_copy_simps [simp]:
  "kv_copy None = None"
  "kv_copy (Some c) = Some (ConsulKVMonitor (Some c))"
  by (simp_all add: kv_copy_def)

lemma other_copy_simps [simp]:
  "other_copy None = None"
  "other_copy (Some v) = Some (OtherMonitor (Some v))"
  by (simp_all add: other_copy_def)

lemma kv_finalize_simps [simp]:
  "kv_finalize None = None"
  "kv_finalize (Some c) = Some
     (c\<lparr>Path := default_if_nil '''' (Path c),
        SourceIncludesVar := default_if_nil False (SourceIncludesVar c),
        Recurse := default_if_nil False (Recurse c),
        Datacenter := default_if_nil '''' (Datacenter c),
        Namespace := default_if_nil '''' (Namespace c)\<rparr>)"
  by (simp_all add: kv_finalize_def)

lemma kv_merge_kv_kv:
  "kv_merge (Some a) (Some (ConsulKVMonitor (Some b))) = Some (ConsulKVMonitor (Some (merge_kv_fields a b)))"
  by (simp add: kv_merge_def)

lemma kv_merge_nil_receiver:
  "kv_merge None oc = (case oc of None \<Rightarrow> None | Some m \<Rightarrow> monitor_copy m)"
  by (auto simp: kv_merge_def is_condition_nil_def split: option.splits monitor_config.splits)

lemma merge_kv_fields_assoc:
  "merge_kv_fields (merge_kv_fields a b) c = merge_kv_fields a (merge_kv_fields b c)"
  by (simp add: merge_kv_fields_def override_if_set_assoc)

subsection \<open>Sequences of fragments\<close>

lemma last_set_Nil [simp]: "last_set [] = None"
  by (simp add: last_set_def)

lemma last_set_not_None:
  assumes "filter (\<lambda>x. x \<noteq> None) xs \<noteq> []"
  shows "last_set xs = last (filter (\<lambda>x. x \<noteq> None) xs) \<and> last_set xs \<noteq> None"
proof -
  have "last (filter (\<lambda>x. x \<noteq> None) xs) \<in> set (filter (\<lambda>x. x \<noteq> None) xs)"
    using assms by (rule last_in_set)
  then show ?thesis using assms by (auto simp: last_set_def split: list.splits)
qed

lemma last_set_Cons: "last_set (x # xs) = override_if_set x (last_set xs)"
proof (cases "filter (\<lambda>x. x \<noteq> None) xs = []")
  case True
  then show ?thesis by (cases x) (simp_all add: last_set_def)
next
  case False
  then show ?thesis
    using last_set_not_None [OF False]
    by (auto simp: last_set_def override_if_set_def split: list.splits)
qed

lemma kv_merge_all_Some:
  "kv_merge_all (Some a) (map Some fs) = Some (foldl merge_kv_fields a fs)"
  by (induction fs arbitrary: a) (simp_all add: kv_merge_kv_kv)

lemma foldl_merge_kv_fields:
  "foldl merge_kv_fields a fs =
     a\<lparr>Path := override_if_set (Path a) (last_set (map Path fs)),
       SourceIncludesVar := override_if_set (SourceIncludesVar a) (last_set (map SourceIncludesVar fs)),
       Recurse := override_if_set (Recurse a) (last_set (map Recurse fs)),
       Datacenter := override_if_set (Datacenter a) (last_set (map Datacenter fs)),
       Namespace := override_if_set (Namespace a) (last_set (map Namespace fs))\<rparr>"
  by (induction fs arbitrary: a) (simp_all add: merge_kv_fields_def last_set_Cons override_if_set_assoc)

subsection \<open>Properties of Merge\<close>

text \<open>
  C1. Merge precedence: merging a consul-kv configuration \<open>b\<close> into a consul-kv
  configuration \<open>a\<close> yields a consul-kv configuration whose every field is \<open>b\<close>'s value
  where \<open>b\<close> sets it and \<open>a\<close>'s value where \<open>b\<close> leaves it unset.
\<close>

theorem kv_merge_precedence:
  "\<exists>r. kv_merge (Some a) (Some (ConsulKVMonitor (Some b))) = Some (ConsulKVMonitor (Some r)) \<and>
     Path r = (case Path b of None \<Rightarrow> Path a | Some p \<Rightarrow> Some p) \<and>
     SourceIncludesVar r = (case SourceIncludesVar b of None \<Rightarrow> SourceIncludesVar a | Some v \<Rightarrow> Some v) \<and>
     Recurse r = (case Recurse b of None \<Rightarrow> Recurse a | Some v \<Rightarrow> Some v) \<and>
     Datacenter r = (case Datacenter b of None \<Rightarrow> Datacenter a | Some d \<Rightarrow> Some d) \<and>
     Namespace r = (case Namespace b of None \<Rightarrow> Namespace a | Some n \<Rightarrow> Some n)"
  by (simp add: kv_merge_kv_kv merge_kv_fields_def override_if_set_def split: option.splits)

text \<open>
  C2. Merging a non-empty sequence of consul-kv fragments into an absent configuration,
  one \<^verbatim>\<open>Merge\<close> call per fragment, gives the configuration in which each field holds
  the value of the last fragment that sets it (unset if none does).
\<close>

theorem kv_merge_all_last_set:
  "kv_merge_all None (map Some (f # fs)) =
     Some \<lparr>Path = last_set (map Path (f # fs)),
           SourceIncludesVar = last_set (map SourceIncludesVar (f # fs)),
           Recurse = last_set (map Recurse (f # fs)),
           Datacenter = last_set (map Datacenter (f # fs)),
           Namespace = last_set (map Namespace (f # fs))\<rparr>"
  by (simp add: kv_merge_nil_receiver kv_merge_all_Some foldl_merge_kv_fields last_set_Cons)

text \<open>
  C3. Merge with an absent operand: a nil receiver returns the other operand's
  \<^verbatim>\<open>Copy()\<close> (nil for a nil interface or a nil pointer of any kind), and a nil
  interface or a nil pointer as the other operand returns the receiver's copy.
\<close>

theorem kv_merge_absent:
  "kv_merge None oc = (case oc of None \<Rightarrow> None | Some m \<Rightarrow> monitor_copy m) \<and>
   kv_merge c None = kv_copy c \<and>
   kv_merge c (Some (ConsulKVMonitor None)) = kv_copy c \<and>
   kv_merge c (Some (OtherMonitor None)) = kv_copy c"
proof -
  have "kv_merge c None = kv_copy c \<and>
        kv_merge c (Some (ConsulKVMonitor None)) = kv_copy c \<and>
        kv_merge c (Some (OtherMonitor None)) = kv_copy c"
    by (cases c) (simp_all add: kv_merge_def)
  with kv_merge_nil_receiver show ?thesis by blast
qed

text \<open>
  C4. Merging a configuration of another kind into a consul-kv configuration is not an
  error and changes nothing: the result is the receiver's copy.
\<close>

theorem kv_merge_cross_kind:
  "kv_merge (Some a) (Some (OtherMonitor x)) = Some (ConsulKVMonitor (Some a))"
  by (cases x) (simp_all add: kv_merge_def)

subsection \<open>Properties of Finalize and Validate\<close>

text \<open>
  C5. Finalize leaves an absent configuration absent and turns a present one into a
  finalized one (no field unset): a field the operator set keeps its value, an unset
  field gets its default (the empty string, or false).
\<close>

theorem kv_finalize_fills:
  "kv_finalize None = None \<and>
   (\<exists>c'. kv_finalize (Some c) = Some c' \<and> kv_finalized c' \<and>
     Path c' = Some (case Path c of None \<Rightarrow> '''' | Some p \<Rightarrow> p) \<and>
     SourceIncludesVar c' = Some (case SourceIncludesVar c of None \<Rightarrow> False | Some v \<Rightarrow> v) \<and>
     Recurse c' = Some (case Recurse c of None \<Rightarrow> False | Some v \<Rightarrow> v) \<and>
     Datacenter c' = Some (case Datacenter c of None \<Rightarrow> '''' | Some d \<Rightarrow> d) \<and>
     Namespace c' = Some (case Namespace c of None \<Rightarrow> '''' | Some n \<Rightarrow> n))"
  by (auto simp: kv_finalized_def split: option.splits)

text \<open>
  C7. Validate after Finalize: an absent configuration validates; a present one fails,
  with the error naming the path, exactly when its path was unset or empty.
\<close>

theorem kv_validate_after_finalize:
  "kv_validate (kv_finalize c) =
     (if c \<noteq> None \<and> Path (the c) \<in> {None, Some ''''}
      then Some (GoError ''path is required for consul-kv condition'') else None)"
  by (cases c) (auto simp: kv_validate_def default_if_nil_def)

text \<open>
  C8. Finalizing the receiver before merging an override into it gives the same finalized
  configuration as merging first and finalizing afterwards.
\<close>

theorem kv_finalize_merge_commute:
  "kv_finalize (as_kv (kv_merge (Some a) (Some (ConsulKVMonitor (Some b))) :: unit monitor_iface)) =
   as_kv (kv_merge (kv_finalize (Some a)) (Some (ConsulKVMonitor (Some b))) :: unit monitor_iface)"
  by (simp add: kv_merge_kv_kv merge_kv_fields_def default_if_nil_override)

text \<open>
  C9. Finalizing the override fragment before merging erases the receiver: a finalized
  fragment sets every field, so merging it replaces the whole configuration (the lifecycle
  must merge first and finalize last).
\<close>

theorem kv_merge_finalized_override:
  assumes "kv_finalized b"
  shows "kv_merge (Some a) (Some (ConsulKVMonitor (Some b))) = Some (ConsulKVMonitor (Some b))"
  using assms by (auto simp: kv_merge_kv_kv merge_kv_fields_def kv_finalized_def)

theorem kv_merge_finalized_override_witness:
  "kv_finalized \<lparr>Path = Some ''kv/app'', SourceIncludesVar = Some False, Recurse = Some True,
                  Datacenter = Some '''', Namespace = Some ''''\<rparr> \<and>
   kv_merge (Some \<lparr>Path = Some ''kv/old'', SourceIncludesVar = None, Recurse = Some False,
                   Datacenter = Some ''dc1'', Namespace = None\<rparr>)
     (Some (ConsulKVMonitor (Some \<lparr>Path = Some ''kv/app'', SourceIncludesVar = Some False,
        Recurse = Some True, Datacenter = Some '''', Namespace = Some ''''\<rparr>)) :: unit monitor_iface) =
   Some (ConsulKVMonitor (Some \<lparr>Path = Some ''kv/app'', SourceIncludesVar = Some False,
        Recurse = Some True, Datacenter = Some '''', Namespace = Some ''''\<rparr>))"
  using kv_merge_finalized_override [of "\<lparr>Path = Some ''kv/app'', SourceIncludesVar = Some False,
        Recurse = Some True, Datacenter = Some '''', Namespace = Some ''''\<rparr>"]
  by (simp add: kv_finalized_def)

end
