(* ===== verification/MonitorConfigPrint.thy ===== *)
theory MonitorConfigPrint
  imports MonitorConfig
begin

text \<open>
  \<^verbatim>\<open>ConsulKVMonitorConfig.GoString\<close>, the form in which a watch-source configuration
  appears in logs, with the helpers \<^verbatim>\<open>StringVal\<close> and \<^verbatim>\<open>BoolVal\<close> of the config
  package (nil reads as the zero value) and Go's \<^verbatim>\<open>%v\<close> of a boolean.
\<close>

definition string_val :: "string option \<Rightarrow> string" where
  "string_val s = (case s of None \<Rightarrow> [] | Some v \<Rightarrow> v)"

definition bool_val :: "bool option \<Rightarrow> bool" where
  "bool_val b = (case b of None \<Rightarrow> False | Some v \<Rightarrow> v)"

fun go_bool_str :: "bool \<Rightarrow> string" where
  "go_bool_str True = ''true''"
| "go_bool_str False = ''false''"

definition kv_go_string :: "consul_kv_monitor_config option \<Rightarrow> string" where
  "kv_go_string c =
     (case c of
        None \<Rightarrow> ''(*ConsulKVMonitorConfig)(nil)''
      | Some c \<Rightarrow>
          ''&ConsulKVMonitorConfig{'' @
          ''Path:'' @ string_val (Path c) @ '', '' @
          ''SourceIncludesVar:'' @ go_bool_str (bool_val (SourceIncludesVar c)) @ '', '' @
          ''Recurse:'' @ go_bool_str (bool_val (Recurse c)) @ '', '' @
          ''Datacenter:'' @ string_val (Datacenter c) @ '', '' @
          ''Namespace:'' @ string_val (Namespace c) @ '', '' @
          ''}'')"

lemma string_val_default [simp]: "string_val (default_if_nil [] s) = string_val s"
  by (cases s) (simp_all add: string_val_def default_if_nil_def)

lemma bool_val_default [simp]: "bool_val (default_if_nil False b) = bool_val b"
  by (cases b) (simp_all add: bool_val_def default_if_nil_def)

text \<open>
  The defaults that \<^verbatim>\<open>Finalize\<close> fills in are the zero values that \<^verbatim>\<open>StringVal\<close>
  and \<^verbatim>\<open>BoolVal\<close> print for nil: a log line does not show whether a configuration was
  finalised, nor whether a field was set to its default or left unset.
\<close>

lemma kv_go_string_finalize: "kv_go_string (kv_finalize c) = kv_go_string c"
  by (cases c) (simp_all add: kv_go_string_def kv_finalize_def)

lemma kv_go_string_example:
  "kv_go_string (Some \<lparr>Path = Some ''app/'', SourceIncludesVar = None, Recurse = Some True,
                       Datacenter = None, Namespace = None\<rparr>) =
   ''&ConsulKVMonitorConfig{Path:app/, SourceIncludesVar:false, Recurse:true, Datacenter:, Namespace:, }''"
  by (simp add: kv_go_string_def string_val_def bool_val_def)

lemma comma_split:
  "CHR '','' \<notin> set a \<Longrightarrow> CHR '','' \<notin> set b \<Longrightarrow>
   (a @ CHR '','' # x = b @ CHR '','' # y) \<longleftrightarrow> a = b \<and> x = y"
proof (induction a arbitrary: b)
  case Nil
  then show ?case by (cases b) auto
next
  case (Cons c a)
  then show ?case by (cases b) auto
qed

lemma go_bool_str_no_comma [simp]: "CHR '','' \<notin> set (go_bool_str b)"
  by (cases b) simp_all

lemma go_bool_str_eq_iff [simp]: "go_bool_str a = go_bool_str b \<longleftrightarrow> a = b"
  by (cases a; cases b) simp_all

lemma default_if_nil_vals:
  "default_if_nil [] s = Some (string_val s)" "default_if_nil False b = Some (bool_val b)"
  by (cases s; simp add: default_if_nil_def string_val_def) (cases b; simp add: default_if_nil_def bool_val_def)

lemma kv_finalize_eq_iff:
  "kv_finalize (Some c1) = kv_finalize (Some c2) \<longleftrightarrow>
     string_val (Path c1) = string_val (Path c2) \<and>
     bool_val (SourceIncludesVar c1) = bool_val (SourceIncludesVar c2) \<and>
     bool_val (Recurse c1) = bool_val (Recurse c2) \<and>
     string_val (Datacenter c1) = string_val (Datacenter c2) \<and>
     string_val (Namespace c1) = string_val (Namespace c2)"
  by (cases c1; cases c2) (simp add: kv_finalize_def default_if_nil_vals)

text \<open>
  C6: a log line of a consul-kv configuration identifies the configuration that takes
  effect: when no string field holds a comma, two configurations print the same
  \<^verbatim>\<open>GoString\<close> exactly when \<^verbatim>\<open>Finalize\<close> makes them equal. In particular the
  log does not show whether a field was left unset or set to its default.
\<close>

theorem kv_go_string_identifies:
  assumes "CHR '','' \<notin> set (string_val (Path c1))" and "CHR '','' \<notin> set (string_val (Path c2))"
    and "CHR '','' \<notin> set (string_val (Datacenter c1))" and "CHR '','' \<notin> set (string_val (Datacenter c2))"
    and "CHR '','' \<notin> set (string_val (Namespace c1))" and "CHR '','' \<notin> set (string_val (Namespace c2))"
  shows "kv_go_string (Some c1) = kv_go_string (Some c2) \<longleftrightarrow> kv_finalize (Some c1) = kv_finalize (Some c2)"
  unfolding kv_finalize_eq_iff
  using assms by (simp add: kv_go_string_def comma_split)

theorem kv_go_string_identifies_witness:
  "CHR '','' \<notin> set (string_val (Some ''kv/'')) \<and> CHR '','' \<notin> set (string_val (None :: string option)) \<and>
   CHR '','' \<notin> set (string_val (Some [])) \<and>
   kv_go_string (Some \<lparr>Path = Some ''kv/'', SourceIncludesVar = None, Recurse = Some False,
                       Datacenter = None, Namespace = Some []\<rparr>) =
   kv_go_string (Some \<lparr>Path = Some ''kv/'', SourceIncludesVar = Some False, Recurse = None,
                       Datacenter = Some [], Namespace = None\<rparr>) \<and>
   kv_finalize (Some \<lparr>Path = Some ''kv/'', SourceIncludesVar = None, Recurse = Some False,
                       Datacenter = None, Namespace = Some []\<rparr>) =
   kv_finalize (Some \<lparr>Path = Some ''kv/'', SourceIncludesVar = Some False, Recurse = None,
                       Datacenter = Some [], Namespace = None\<rparr>)"
  using kv_go_string_identifies
    [of "\<lparr>Path = Some ''kv/'', SourceIncludesVar = None, Recurse = Some False, Datacenter = None, Namespace = Some []\<rparr>"
        "\<lparr>Path = Some ''kv/'', SourceIncludesVar = Some False, Recurse = None, Datacenter = Some [], Namespace = None\<rparr>"]
  by (simp add: string_val_def kv_go_string_def bool_val_def)

end
