(* ===== verification/RootModule.thy ===== *)
theory RootModule
  imports Prelude
begin

text \<open>
  The input data of the root-module generator, \<^verbatim>\<open>src/templates/tftmpl/root.go\<close>
  lines 59 to 129 and 307 to 332: \<^verbatim>\<open>Task\<close>, \<^verbatim>\<open>Service\<close> and
  \<^verbatim>\<open>RootModuleInputData\<close> as records, \<^verbatim>\<open>TemplateServiceID\<close>, the normalisation
  \<^verbatim>\<open>Init\<close>, and the key-sorting helpers. Operator configuration values
  (\<^verbatim>\<open>interface{}\<close> and \<^verbatim>\<open>cty.Value\<close>) are the datatype \<open>raw_value\<close>,
  whose \<open>RNull\<close> is Go's \<open>nil\<close> (the zero value a map index returns for a missing key).
  A \<^verbatim>\<open>namedBlock\<close> (defined outside \<^verbatim>\<open>src/\<close>, modelled from the specification's
  AttributeBlock) is a block name with its attribute map.

  \<^verbatim>\<open>Init\<close> stores \<^verbatim>\<open>d.services = d.Services\<close> and sorts \<^verbatim>\<open>d.services\<close> in place:
  both slice headers share one backing array, so the caller's \<^verbatim>\<open>Services\<close> is sorted
  too; \<open>init_input\<close> updates both fields.
\<close>

datatype raw_value =
    RNull
  | RStr string
  | RBool bool
  | RInt int
  | RList "raw_value list"
  | RMap "(string \<times> raw_value) list"

record task =
  task_description :: string
  task_name :: string
  task_source :: string
  task_version :: string

record service =
  svc_datacenter :: string
  svc_description :: string
  svc_name :: string
  svc_namespace :: string
  svc_tag :: string

definition template_service_id :: "service \<Rightarrow> string" where
  "template_service_id s =
     (let id = svc_name s;
          id = (if svc_tag s \<noteq> '''' then svc_tag s @ ''.'' @ svc_name s else id);
          id = (if svc_datacenter s \<noteq> '''' then id @ ''@'' @ svc_datacenter s else id)
      in id)"

record named_block =
  nb_name :: string
  nb_block :: "raw_value go_map"

text \<open>
  \<^verbatim>\<open>newNamedBlock\<close>: a block map holds one entry, the block's name mapped to its
  attributes; the first entry visited gives the block.
\<close>

definition new_named_block :: "raw_value go_map \<Rightarrow> named_block" where
  "new_named_block b =
     (case b of
        [] \<Rightarrow> \<lparr>nb_name = '''', nb_block = []\<rparr>
      | (k, v) # _ \<Rightarrow>
          \<lparr>nb_name = k, nb_block = (case v of RMap attrs \<Rightarrow> attrs | _ \<Rightarrow> [])\<rparr>)"

definition sorted_attributes :: "named_block \<Rightarrow> string list" where
  "sorted_attributes nb = sort (map fst (nb_block nb))"

record root_module_input_data =
  Backend :: "raw_value go_map option"
  Providers :: "raw_value go_map list"
  ProviderInfo :: "raw_value go_map"
  Services :: "service list"
  Task :: task
  Variables :: "raw_value go_map"
  backend :: "named_block option"
  providers :: "named_block list"
  services :: "service list"

definition init_input :: "root_module_input_data \<Rightarrow> root_module_input_data" where
  "init_input d =
     (let d = (case Backend d of
                 Some b \<Rightarrow> d\<lparr>backend := Some (new_named_block b)\<rparr>
               | None \<Rightarrow> d\<lparr>Backend := Some []\<rparr>);
          d = d\<lparr>providers := sort_key nb_name (map new_named_block (Providers d))\<rparr>;
          sorted = sort_key svc_name (Services d)
      in d\<lparr>services := sorted, Services := sorted\<rparr>)"

definition sorted_keys :: "'v go_map \<Rightarrow> string list" where
  "sorted_keys m = sort (map fst m)"

definition variables_keys :: "raw_value go_map \<Rightarrow> string list" where
  "variables_keys v = sort (map fst v)"

subsection \<open>Specification-level notions and example inputs\<close>

text \<open>
  Reading a service identifier back: the tag is what precedes the first dot of the part
  before the first \<open>@\<close>, the datacenter what follows that \<open>@\<close>.
\<close>

definition split_first :: "char \<Rightarrow> string \<Rightarrow> string \<times> string option" where
  "split_first c s = (takeWhile (\<lambda>x. x \<noteq> c) s,
     (if c \<in> set s then Some (tl (dropWhile (\<lambda>x. x \<noteq> c) s)) else None))"

definition parse_service_id :: "string \<Rightarrow> string \<times> string \<times> string" where
  "parse_service_id i =
     (let (pre, dc) = split_first (CHR ''@'') i;
          (a, b) = split_first (CHR ''.'') pre;
          d = (case dc of None \<Rightarrow> '''' | Some d \<Rightarrow> d)
      in (case b of None \<Rightarrow> ('''', a, d) | Some nm \<Rightarrow> (a, nm, d)))"

definition mk_service :: "string \<Rightarrow> string \<Rightarrow> string \<Rightarrow> service" where
  "mk_service n t dc =
     \<lparr>svc_datacenter = dc, svc_description = '''', svc_name = n, svc_namespace = '''', svc_tag = t\<rparr>"

text \<open>The scenario task of the specification: no backend, one provider, no variables.\<close>

definition db_task_input :: "service list \<Rightarrow> root_module_input_data" where
  "db_task_input ss =
     \<lparr>Backend = None, Providers = [[(''local'', RMap [])]], ProviderInfo = [], Services = ss,
      Task = \<lparr>task_description = '''', task_name = ''db_task'', task_source = ''src'', task_version = ''''\<rparr>,
      Variables = [], backend = None, providers = [], services = []\<rparr>"

subsection \<open>Evaluation lemmas\<close>

lemma init_input_fields:
  "Backend (init_input d) = Some (case Backend d of None \<Rightarrow> [] | Some b \<Rightarrow> b)"
  "backend (init_input d) = (case Backend d of None \<Rightarrow> backend d | Some b \<Rightarrow> Some (new_named_block b))"
  "providers (init_input d) = sort_key nb_name (map new_named_block (Providers d))"
  "services (init_input d) = sort_key svc_name (Services d)"
  "Services (init_input d) = sort_key svc_name (Services d)"
  "Providers (init_input d) = Providers d"
  "ProviderInfo (init_input d) = ProviderInfo d"
  "Task (init_input d) = Task d"
  "Variables (init_input d) = Variables d"
  by (simp_all add: init_input_def Let_def split: option.splits)

lemma split_first_Nil [simp]: "split_first c [] = ([], None)"
  by (simp add: split_first_def)

lemma split_first_Cons [simp]:
  "split_first c (x # xs) =
     (if x = c then ([], Some xs) else (x # fst (split_first c xs), snd (split_first c xs)))"
  by (auto simp: split_first_def)

lemma split_first_append:
  "c \<notin> set xs \<Longrightarrow> split_first c (xs @ ys) = (xs @ fst (split_first c ys), snd (split_first c ys))"
  by (induction xs) auto

lemma split_first_none:
  "c \<notin> set xs \<Longrightarrow> split_first c xs = (xs, None)"
  by (induction xs) auto

subsection \<open>Properties of Init\<close>

text \<open>
  C10. After \<^verbatim>\<open>Init\<close>, the provider blocks are sorted by name and are exactly the blocks
  built from the input providers, and the services are sorted by name and are a permutation
  of the input services.
\<close>

theorem init_sorted_perm:
  "sorted (map nb_name (providers (init_input d))) \<and>
   mset (providers (init_input d)) = mset (map new_named_block (Providers d)) \<and>
   sorted (map svc_name (services (init_input d))) \<and>
   mset (services (init_input d)) = mset (Services d)"
  by (simp add: init_input_fields)

text \<open>C13. With a backend configured, \<^verbatim>\<open>Init\<close> is idempotent.\<close>

theorem init_idem_with_backend:
  assumes "Backend d \<noteq> None"
  shows "init_input (init_input d) = init_input d"
  using assms by (cases "Backend d") (simp_all add: init_input_def Let_def)

theorem init_idem_with_backend_witness:
  "Backend (db_task_input [] \<lparr>Backend := Some [(''consul'', RMap [(''path'', RStr ''tf'')])]\<rparr>) \<noteq> None \<and>
   init_input (init_input (db_task_input [] \<lparr>Backend := Some [(''consul'', RMap [(''path'', RStr ''tf'')])]\<rparr>)) =
   init_input (db_task_input [] \<lparr>Backend := Some [(''consul'', RMap [(''path'', RStr ''tf'')])]\<rparr>)"
  using init_idem_with_backend [of "db_task_input [] \<lparr>Backend := Some [(''consul'', RMap [(''path'', RStr ''tf'')])]\<rparr>"]
  by (simp add: db_task_input_def)

text \<open>
  C14. Without a backend, \<^verbatim>\<open>Init\<close> is not idempotent: the first call leaves the backend
  block unset but stores an empty backend map, so a second call builds a backend block from
  that empty map.
\<close>

theorem init_twice_adds_backend:
  assumes "Backend d = None"
  shows "backend (init_input d) = backend d \<and> backend (init_input (init_input d)) = Some (new_named_block [])"
  using assms by (simp add: init_input_fields)

theorem init_twice_adds_backend_witness:
  "Backend (db_task_input []) = None \<and> backend (init_input (db_task_input [])) = None \<and>
   backend (init_input (init_input (db_task_input []))) = Some \<lparr>nb_name = '''', nb_block = []\<rparr>"
  using init_twice_adds_backend [of "db_task_input []"]
  by (simp add: db_task_input_def new_named_block_def)

text \<open>
  C15. \<^verbatim>\<open>Init\<close> does not depend on the order in which providers and services were
  supplied, as long as no two providers and no two services share a name.
\<close>

theorem init_deterministic:
  assumes "mset (Providers d1) = mset (Providers d2)"
    and "inj_on nb_name (new_named_block ` set (Providers d1))"
    and "mset (Services d1) = mset (Services d2)"
    and "inj_on svc_name (set (Services d1))"
  shows "providers (init_input d1) = providers (init_input d2) \<and> services (init_input d1) = services (init_input d2)"
proof -
  have "mset (map new_named_block (Providers d1)) = mset (map new_named_block (Providers d2))"
    using assms(1) by simp
  then have "sort_key nb_name (map new_named_block (Providers d1)) =
             sort_key nb_name (map new_named_block (Providers d2))"
    using assms(2) by (intro sort_key_mset_eq) simp_all
  moreover have "sort_key svc_name (Services d1) = sort_key svc_name (Services d2)"
    using assms(3,4) by (rule sort_key_mset_eq)
  ultimately show ?thesis by (simp add: init_input_fields)
qed

theorem init_deterministic_witness:
  "mset (Providers (db_task_input [mk_service ''web'' '''' '''', mk_service ''db'' '''' ''''])) =
     mset (Providers (db_task_input [mk_service ''db'' '''' '''', mk_service ''web'' '''' ''''])) \<and>
   inj_on nb_name (new_named_block ` set (Providers (db_task_input [mk_service ''web'' '''' '''', mk_service ''db'' '''' '''']))) \<and>
   mset (Services (db_task_input [mk_service ''web'' '''' '''', mk_service ''db'' '''' ''''])) =
     mset (Services (db_task_input [mk_service ''db'' '''' '''', mk_service ''web'' '''' ''''])) \<and>
   inj_on svc_name (set (Services (db_task_input [mk_service ''web'' '''' '''', mk_service ''db'' '''' '''']))) \<and>
   services (init_input (db_task_input [mk_service ''web'' '''' '''', mk_service ''db'' '''' ''''])) =
     services (init_input (db_task_input [mk_service ''db'' '''' '''', mk_service ''web'' '''' '''']))"
  using init_deterministic [of "db_task_input [mk_service ''web'' '''' '''', mk_service ''db'' '''' '''']"
      "db_task_input [mk_service ''db'' '''' '''', mk_service ''web'' '''' '''']"]
  by (simp add: db_task_input_def mk_service_def)

text \<open>
  C16. When two services share a name, the order \<^verbatim>\<open>Init\<close> leaves them in is the order in
  which they were supplied: two inputs with the same services in different orders give
  different normalised service lists (the specification's scenario, services \<open>db\<close> and
  \<open>v1.db\<close>, is such a case).
\<close>

theorem init_service_order_leaks:
  "\<exists>d1 d2. mset (Services d1) = mset (Services d2) \<and> Providers d1 = Providers d2 \<and>
     services (init_input d1) \<noteq> services (init_input d2)"
proof (intro exI conjI)
  let ?a = "mk_service ''db'' '''' ''''" and ?b = "mk_service ''db'' ''v1'' ''''"
  show "mset (Services (db_task_input [?a, ?b])) = mset (Services (db_task_input [?b, ?a]))"
    by (simp add: db_task_input_def)
  show "Providers (db_task_input [?a, ?b]) = Providers (db_task_input [?b, ?a])"
    by (simp add: db_task_input_def)
  show "services (init_input (db_task_input [?a, ?b])) \<noteq> services (init_input (db_task_input [?b, ?a]))"
    by (simp add: db_task_input_def mk_service_def init_input_fields)
qed

subsection \<open>Properties of the service identifier and of the key helpers\<close>

text \<open>
  C17. The service identifier \<open>tag.name@datacenter\<close> can be read back into tag, name and
  datacenter whenever name and tag contain neither a dot nor an \<open>@\<close>; on such services
  \<^verbatim>\<open>TemplateServiceID\<close> is injective.
\<close>

theorem template_service_id_roundtrip:
  assumes "CHR ''.'' \<notin> set (svc_name s)" and "CHR ''@'' \<notin> set (svc_name s)"
    and "CHR ''.'' \<notin> set (svc_tag s)" and "CHR ''@'' \<notin> set (svc_tag s)"
  shows "parse_service_id (template_service_id s) = (svc_tag s, svc_name s, svc_datacenter s)"
  using assms
  by (cases "svc_tag s = ''''"; cases "svc_datacenter s = ''''")
     (simp_all add: template_service_id_def parse_service_id_def split_first_append split_first_none)

theorem template_service_id_roundtrip_witness:
  "CHR ''.'' \<notin> set ''db'' \<and> CHR ''@'' \<notin> set ''db'' \<and> CHR ''.'' \<notin> set ''v1'' \<and> CHR ''@'' \<notin> set ''v1'' \<and>
   template_service_id (mk_service ''db'' ''v1'' ''dc1'') = ''v1.db@dc1'' \<and>
   parse_service_id ''v1.db@dc1'' = (''v1'', ''db'', ''dc1'')"
  using template_service_id_roundtrip [of "mk_service ''db'' ''v1'' ''dc1''"]
  by (simp add: mk_service_def template_service_id_def)

text \<open>
  C18. Without that restriction the identifier is not unique: the untagged service
  \<open>v1.db\<close> and the service \<open>db\<close> tagged \<open>v1\<close> get the same identifier.
\<close>

theorem template_service_id_collision:
  "\<exists>s1 s2. (svc_name s1, svc_tag s1, svc_datacenter s1) \<noteq> (svc_name s2, svc_tag s2, svc_datacenter s2) \<and>
     template_service_id s1 = template_service_id s2"
proof (intro exI conjI)
  show "(svc_name (mk_service ''v1.db'' '''' ''''), svc_tag (mk_service ''v1.db'' '''' ''''),
         svc_datacenter (mk_service ''v1.db'' '''' '''')) \<noteq>
        (svc_name (mk_service ''db'' ''v1'' ''''), svc_tag (mk_service ''db'' ''v1'' ''''),
         svc_datacenter (mk_service ''db'' ''v1'' ''''))"
    by (simp add: mk_service_def)
  show "template_service_id (mk_service ''v1.db'' '''' '''') = template_service_id (mk_service ''db'' ''v1'' '''')"
    by (simp add: mk_service_def template_service_id_def)
qed

text \<open>
  C19. \<^verbatim>\<open>sortedKeys\<close> of a map is the sorted list of the map's keys: it depends only on
  the map and not on the order in which Go's iteration visits it.
\<close>

theorem sorted_keys_refines:
  assumes "go_map_ok m"
  shows "sorted_keys m = sorted_list_of_set (dom (map_of m))"
proof -
  have "dom (map_of m) = set (map fst m)" by (simp add: dom_map_of_conv_image_fst)
  moreover have "remdups (map fst m) = map fst m" using assms by (simp add: go_map_ok_def)
  moreover have "sorted_list_of_set (set (map fst m)) = sort (remdups (map fst m))"
    by (rule sorted_list_of_set_sort_remdups)
  ultimately show ?thesis by (simp only: sorted_keys_def)
qed

theorem sorted_keys_refines_witness:
  "go_map_ok [(''region'', RStr ''us''), (''alias'', RStr ''a'')] \<and>
   sorted_keys [(''region'', RStr ''us''), (''alias'', RStr ''a'')] =
     sorted_list_of_set (dom (map_of [(''region'', RStr ''us''), (''alias'', RStr ''a'')]))"
  using sorted_keys_refines [of "[(''region'', RStr ''us''), (''alias'', RStr ''a'')]"]
  by (simp add: go_map_ok_def)

end
