(* ===== verification/MainTF.thy ===== *)
theory MainTF
  imports RootModule
begin

text \<open>
  The body of the generated \<^verbatim>\<open>main.tf\<close>, \<^verbatim>\<open>src/templates/tftmpl/root.go\<close>
  lines 183 to 305: \<^verbatim>\<open>NewMainTF\<close> builds an \<^verbatim>\<open>hclwrite\<close> file by appending to its
  root body, then formats and writes it. The file is modelled as its syntax tree, a list of
  body items (\<open>hcl_item\<close>); \<^verbatim>\<open>hclwrite.Format\<close> only changes whitespace and is not
  modelled. The \<^verbatim>\<open>hclwrite\<close> operations the code calls are modelled as the library
  behaves: \<^verbatim>\<open>AppendNewBlock\<close> and \<^verbatim>\<open>AppendNewline\<close> append, and
  \<^verbatim>\<open>SetAttributeValue\<close> / \<^verbatim>\<open>SetAttributeTraversal\<close> replace the expression of
  the body's attribute of that name when there is one and append a new attribute otherwise
  (\<open>body_set_attr\<close>). A block appended first and filled afterwards through its body
  pointer is the same tree as the filled block appended, which is how the model builds it.
\<close>

datatype hcl_expr =
    HLit raw_value
  | HTraversal "string list"

datatype hcl_item =
    HAttr string hcl_expr
  | HBlock string "string list" "hcl_item list"
  | HNewline
  | HComment string

definition terraform_required_version :: string where
  "terraform_required_version = ''~>0.13.0''"

fun replace_attr :: "string \<Rightarrow> hcl_expr \<Rightarrow> hcl_item list \<Rightarrow> hcl_item list option" where
  "replace_attr n e [] = None"
| "replace_attr n e (HAttr m e' # rest) =
     (if m = n then Some (HAttr n e # rest) else map_option (Cons (HAttr m e')) (replace_attr n e rest))"
| "replace_attr n e (x # rest) = map_option (Cons x) (replace_attr n e rest)"

definition body_set_attr :: "string \<Rightarrow> hcl_expr \<Rightarrow> hcl_item list \<Rightarrow> hcl_item list" where
  "body_set_attr n e b = (case replace_attr n e b of Some b' \<Rightarrow> b' | None \<Rightarrow> b @ [HAttr n e])"

text \<open>Indexing a Go map: the zero value \<open>nil\<close> for a missing key.\<close>

definition go_map_index :: "raw_value go_map \<Rightarrow> string \<Rightarrow> raw_value" where
  "go_map_index m k = (case map_of m k of Some v \<Rightarrow> v | None \<Rightarrow> RNull)"

definition append_root_terraform_block ::
  "hcl_item list \<Rightarrow> named_block option \<Rightarrow> raw_value go_map \<Rightarrow> hcl_item list" where
  "append_root_terraform_block body bk provider_info =
     (let tf = body_set_attr ''required_version'' (HLit (RStr terraform_required_version)) [];
          tf = (if length provider_info \<noteq> 0
                then tf @ [HBlock ''required_providers'' []
                  (foldl (\<lambda>rp p. case map_of provider_info p of
                                    Some info \<Rightarrow> body_set_attr p (HLit info) rp
                                  | None \<Rightarrow> rp)
                     [] (sorted_keys provider_info))]
                else tf);
          tf = (case bk of
                  None \<Rightarrow> tf
                | Some b \<Rightarrow> tf @ [HBlock ''backend'' [nb_name b]
                    (foldl (\<lambda>bb attr. body_set_attr attr (HLit (go_map_index (nb_block b) attr)) bb)
                       [] (sorted_attributes b))])
      in body @ [HBlock ''terraform'' [] tf])"

definition provider_block :: "named_block \<Rightarrow> hcl_item" where
  "provider_block p =
     HBlock ''provider'' [nb_name p]
       (foldl (\<lambda>pb attr. if attr = ''alias'' then pb
                         else body_set_attr attr (HTraversal [''var'', nb_name p, attr]) pb)
          [] (sorted_attributes p))"

definition append_root_provider_blocks :: "hcl_item list \<Rightarrow> named_block list \<Rightarrow> hcl_item list" where
  "append_root_provider_blocks body ps =
     body @ concat (map (\<lambda>i. provider_block (ps ! i) # (if i \<noteq> length ps - 1 then [HNewline] else []))
                      [0..<length ps])"

definition append_comment :: "hcl_item list \<Rightarrow> string \<Rightarrow> hcl_item list" where
  "append_comment b c = b @ [HComment (''# '' @ c), HNewline]"

definition append_root_module_block :: "hcl_item list \<Rightarrow> task \<Rightarrow> string list \<Rightarrow> hcl_item list" where
  "append_root_module_block body t var_names =
     (let body = (if task_description t \<noteq> '''' then append_comment body (task_description t) else body);
          mb = body_set_attr ''source'' (HLit (RStr (task_source t))) [];
          mb = (if length (task_version t) > 0
                then body_set_attr ''version'' (HLit (RStr (task_version t))) mb else mb);
          mb = body_set_attr ''services'' (HTraversal [''var'', ''services'']) mb;
          mb = (if var_names \<noteq> [] then mb @ [HNewline] else mb);
          mb = foldl (\<lambda>mb name. body_set_attr name (HTraversal [''var'', name]) mb) mb var_names
      in body @ [HBlock ''module'' [task_name t] mb])"

text \<open>The formatted content \<^verbatim>\<open>NewMainTF\<close> writes after the preamble.\<close>

definition main_tf_body :: "root_module_input_data \<Rightarrow> hcl_item list" where
  "main_tf_body input =
     (let body = append_root_terraform_block [] (backend input) (ProviderInfo input);
          body = body @ [HNewline];
          body = append_root_provider_blocks body (providers input);
          body = body @ [HNewline]
      in append_root_module_block body (Task input) (variables_keys (Variables input)))"

subsection \<open>Specification-level notions\<close>

text \<open>
  The intended layout of the provider section (blocks separated by blank lines) and the
  attribute names of a body.
\<close>

fun sep_by_newline :: "hcl_item list \<Rightarrow> hcl_item list" where
  "sep_by_newline [] = []"
| "sep_by_newline [x] = [x]"
| "sep_by_newline (x # xs) = x # HNewline # sep_by_newline xs"

fun attr_names :: "hcl_item list \<Rightarrow> string list" where
  "attr_names [] = []"
| "attr_names (HAttr n _ # r) = n # attr_names r"
| "attr_names (_ # r) = attr_names r"

text \<open>The attribute an hclwrite body holds under a name: its first one of that name.\<close>

fun attr_of :: "hcl_item list \<Rightarrow> string \<Rightarrow> hcl_expr option" where
  "attr_of [] n = None"
| "attr_of (HAttr m e # r) n = (if m = n then Some e else attr_of r n)"
| "attr_of (_ # r) n = attr_of r n"

subsection \<open>Lemmas on hclwrite bodies\<close>

lemma attr_names_append [simp]: "attr_names (b @ c) = attr_names b @ attr_names c"
  by (induction b rule: attr_names.induct) simp_all

lemma replace_attr_None_iff: "replace_attr n e b = None \<longleftrightarrow> n \<notin> set (attr_names b)"
  by (induction n e b rule: replace_attr.induct) auto

lemma body_set_attr_fresh:
  "n \<notin> set (attr_names b) \<Longrightarrow> body_set_attr n e b = b @ [HAttr n e]"
  using replace_attr_None_iff [of n e b] by (simp add: body_set_attr_def)

lemma foldl_set_attr_fresh:
  assumes "distinct ns" and "set ns \<inter> set (attr_names b) = {}"
  shows "foldl (\<lambda>b n. body_set_attr n (f n) b) b ns = b @ map (\<lambda>n. HAttr n (f n)) ns"
  using assms
proof (induction ns arbitrary: b)
  case Nil
  then show ?case by simp
next
  case (Cons n ns)
  then have "body_set_attr n (f n) b = b @ [HAttr n (f n)]"
    by (simp add: body_set_attr_fresh)
  moreover have "set ns \<inter> set (attr_names (b @ [HAttr n (f n)])) = {}"
    using Cons.prems by auto
  ultimately show ?case using Cons by simp
qed

lemma foldl_skip_filter:
  "foldl (\<lambda>b a. if a = x then b else g a b) b xs = foldl (\<lambda>b a. g a b) b (filter (\<lambda>a. a \<noteq> x) xs)"
  by (induction xs arbitrary: b) simp_all

lemma foldl_map_of_present:
  assumes "set ks \<subseteq> fst ` set m"
  shows "foldl (\<lambda>rp p. case map_of m p of Some info \<Rightarrow> body_set_attr p (HLit info) rp | None \<Rightarrow> rp) b ks =
         foldl (\<lambda>rp p. body_set_attr p (HLit (go_map_index m p)) rp) b ks"
  using assms
proof (induction ks arbitrary: b)
  case Nil
  then show ?case by simp
next
  case (Cons k ks)
  then obtain v where "map_of m k = Some v"
    by (metis insert_subset list.simps(15) map_of_eq_None_iff not_Some_eq)
  with Cons show ?case by (simp add: go_map_index_def)
qed

lemma sorted_keys_distinct_set:
  "go_map_ok m \<Longrightarrow> distinct (sorted_keys m) \<and> set (sorted_keys m) = fst ` set m"
  by (simp add: sorted_keys_def go_map_ok_def)

lemma sorted_attributes_distinct_set:
  "go_map_ok (nb_block b) \<Longrightarrow> distinct (sorted_attributes b) \<and> set (sorted_attributes b) = fst ` set (nb_block b)"
  by (simp add: sorted_attributes_def go_map_ok_def)

lemma concat_newline_sep:
  "concat (map (\<lambda>i. g (ps ! i) # (if i \<noteq> length ps - 1 then [HNewline] else [])) [0..<length ps]) =
   sep_by_newline (map g ps)"
proof (induction ps)
  case Nil
  then show ?case by simp
next
  case (Cons p ps)
  let ?F = "\<lambda>i. g ((p # ps) ! i) # (if i \<noteq> length (p # ps) - 1 then [HNewline] else [])"
  let ?G = "\<lambda>i. g (ps ! i) # (if i \<noteq> length ps - 1 then [HNewline] else [])"
  have upt: "[0..<length (p # ps)] = 0 # map Suc [0..<length ps]"
    by (simp add: upt_conv_Cons map_Suc_upt del: upt_Suc)
  have tail: "map (?F \<circ> Suc) [0..<length ps] = map ?G [0..<length ps]"
    by (rule map_cong) auto
  have "concat (map ?F [0..<length (p # ps)]) = ?F 0 @ concat (map (?F \<circ> Suc) [0..<length ps])"
    by (simp only: upt list.map map_map concat.simps)
  also have "\<dots> = (g p # (if ps \<noteq> [] then [HNewline] else [])) @ concat (map ?G [0..<length ps])"
    by (simp only: tail) simp
  also have "\<dots> = sep_by_newline (map g (p # ps))"
    using Cons.IH by (cases ps) simp_all
  finally show ?case .
qed

subsection \<open>Properties of the main.tf body\<close>

text \<open>
  C20. \<^verbatim>\<open>appendRootProviderBlocks\<close>, which appends a newline after every block whose
  index is not the last, lays the provider blocks out one after another separated by single
  newlines, in the order of the (sorted) provider list.
\<close>

theorem provider_blocks_layout:
  "append_root_provider_blocks body ps = body @ sep_by_newline (map provider_block ps)"
  unfolding append_root_provider_blocks_def concat_newline_sep ..

text \<open>
  C21. A provider block holds, in sorted attribute order, one attribute per provider
  attribute except \<open>alias\<close>, each a reference \<open>var.<provider>.<attribute>\<close>.
\<close>

theorem provider_block_spec:
  assumes "go_map_ok (nb_block p)"
  shows "provider_block p =
    HBlock ''provider'' [nb_name p]
      (map (\<lambda>a. HAttr a (HTraversal [''var'', nb_name p, a])) (filter (\<lambda>a. a \<noteq> ''alias'') (sorted_attributes p)))"
proof -
  have "distinct (filter (\<lambda>a. a \<noteq> ''alias'') (sorted_attributes p))"
    using sorted_attributes_distinct_set [OF assms] by simp
  then show ?thesis
    by (simp add: provider_block_def foldl_skip_filter foldl_set_attr_fresh)
qed

theorem provider_block_spec_witness:
  "go_map_ok [(''region'', RStr ''us-east-1''), (''alias'', RStr ''east'')] \<and>
   provider_block \<lparr>nb_name = ''aws'', nb_block = [(''region'', RStr ''us-east-1''), (''alias'', RStr ''east'')]\<rparr> =
     HBlock ''provider'' [''aws''] [HAttr ''region'' (HTraversal [''var'', ''aws'', ''region''])]"
  using provider_block_spec [of "\<lparr>nb_name = ''aws'', nb_block = [(''region'', RStr ''us-east-1''), (''alias'', RStr ''east'')]\<rparr>"]
  by (simp add: go_map_ok_def sorted_attributes_def)

text \<open>
  C22. The terraform block holds the pinned required version, then a
  \<open>required_providers\<close> block with one entry per provider in sorted order when provider
  information is given, then a \<open>backend\<close> block with the backend's attributes in sorted
  order exactly when a backend block is set.
\<close>

theorem terraform_block_spec:
  assumes "go_map_ok provider_info" and "case bk of None \<Rightarrow> True | Some b \<Rightarrow> go_map_ok (nb_block b)"
  shows "append_root_terraform_block body bk provider_info =
    body @ [HBlock ''terraform'' []
      ([HAttr ''required_version'' (HLit (RStr ''~>0.13.0''))] @
       (if provider_info = [] then []
        else [HBlock ''required_providers'' []
               (map (\<lambda>k. HAttr k (HLit (go_map_index provider_info k))) (sorted_keys provider_info))]) @
       (case bk of None \<Rightarrow> []
        | Some b \<Rightarrow> [HBlock ''backend'' [nb_name b]
            (map (\<lambda>a. HAttr a (HLit (go_map_index (nb_block b) a))) (sorted_attributes b))]))]"
proof -
  have rp: "foldl (\<lambda>rp p. case map_of provider_info p of Some info \<Rightarrow> body_set_attr p (HLit info) rp | None \<Rightarrow> rp)
              [] (sorted_keys provider_info) =
            map (\<lambda>k. HAttr k (HLit (go_map_index provider_info k))) (sorted_keys provider_info)"
    using sorted_keys_distinct_set [OF assms(1)]
    by (simp add: foldl_map_of_present foldl_set_attr_fresh)
  show ?thesis
  proof (cases bk)
    case None
    then show ?thesis
      by (simp add: append_root_terraform_block_def Let_def rp body_set_attr_def terraform_required_version_def)
  next
    case (Some b)
    with assms(2) have "go_map_ok (nb_block b)" by simp
    then have "foldl (\<lambda>bb attr. body_set_attr attr (HLit (go_map_index (nb_block b) attr)) bb) [] (sorted_attributes b) =
               map (\<lambda>a. HAttr a (HLit (go_map_index (nb_block b) a))) (sorted_attributes b)"
      using sorted_attributes_distinct_set by (simp add: foldl_set_attr_fresh)
    with Some show ?thesis
      by (simp add: append_root_terraform_block_def Let_def rp body_set_attr_def terraform_required_version_def)
  qed
qed

theorem terraform_block_spec_witness:
  "go_map_ok [(''local'', RMap [(''source'', RStr ''hashicorp/local'')])] \<and>
   (case (None :: named_block option) of None \<Rightarrow> True | Some b \<Rightarrow> go_map_ok (nb_block b)) \<and>
   append_root_terraform_block [] None [(''local'', RMap [(''source'', RStr ''hashicorp/local'')])] =
     [HBlock ''terraform'' []
       [HAttr ''required_version'' (HLit (RStr ''~>0.13.0'')),
        HBlock ''required_providers'' []
          [HAttr ''local'' (HLit (RMap [(''source'', RStr ''hashicorp/local'')]))]]]"
  using terraform_block_spec [of "[(''local'', RMap [(''source'', RStr ''hashicorp/local'')])]" None "[]"]
  by (simp add: go_map_ok_def sorted_keys_def go_map_index_def)

text \<open>
  C23. When no user variable is named \<open>source\<close>, \<open>version\<close> or \<open>services\<close>, the
  module block is the description comment (when there is a description), then the block
  with the source, the version pin when there is one, the \<open>var.services\<close> reference and,
  after a blank line, one reference \<open>var.<name>\<close> per variable in the given order.
\<close>

theorem module_block_spec:
  assumes "distinct vs" and "set vs \<inter> {''source'', ''version'', ''services''} = {}"
  shows "append_root_module_block body t vs =
    body @ (if task_description t \<noteq> '''' then [HComment (''# '' @ task_description t), HNewline] else []) @
    [HBlock ''module'' [task_name t]
      ([HAttr ''source'' (HLit (RStr (task_source t)))] @
       (if task_version t \<noteq> '''' then [HAttr ''version'' (HLit (RStr (task_version t)))] else []) @
       [HAttr ''services'' (HTraversal [''var'', ''services''])] @
       (if vs \<noteq> [] then [HNewline] else []) @
       map (\<lambda>n. HAttr n (HTraversal [''var'', n])) vs)]"
  using assms
  by (cases "task_version t = ''''"; cases "vs = []")
     (simp_all add: append_root_module_block_def append_comment_def Let_def body_set_attr_fresh foldl_set_attr_fresh)

theorem module_block_spec_witness:
  "distinct [''count''] \<and> set [''count''] \<inter> {''source'', ''version'', ''services''} = {} \<and>
   append_root_module_block []
     \<lparr>task_description = '''', task_name = ''db_task'', task_source = ''./m'', task_version = ''''\<rparr> [''count''] =
   [HBlock ''module'' [''db_task'']
      [HAttr ''source'' (HLit (RStr ''./m'')), HAttr ''services'' (HTraversal [''var'', ''services'']),
       HNewline, HAttr ''count'' (HTraversal [''var'', ''count''])]]"
  using module_block_spec [of "[''count'']" "[]"
      "\<lparr>task_description = '''', task_name = ''db_task'', task_source = ''./m'', task_version = ''''\<rparr>"]
  by simp

text \<open>
  C24. A user variable named \<open>source\<close> replaces the module's source: the block's
  \<open>source\<close> attribute becomes the reference \<open>var.source\<close> and the configured module
  source disappears from the file.
\<close>

theorem module_var_replaces_source:
  "append_root_module_block [] t [''source''] =
     (if task_description t \<noteq> '''' then [HComment (''# '' @ task_description t), HNewline] else []) @
     [HBlock ''module'' [task_name t]
        ([HAttr ''source'' (HTraversal [''var'', ''source''])] @
         (if task_version t \<noteq> '''' then [HAttr ''version'' (HLit (RStr (task_version t)))] else []) @
         [HAttr ''services'' (HTraversal [''var'', ''services'']), HNewline])]"
  by (simp add: append_root_module_block_def append_comment_def Let_def body_set_attr_def)

text \<open>The terraform block depends on the provider-information map only through its lookups.\<close>

lemma terraform_block_map_of_eq:
  assumes "go_map_ok p1" and "go_map_ok p2" and "map_of p1 = map_of p2"
  shows "append_root_terraform_block body bk p1 = append_root_terraform_block body bk p2"
proof -
  have k: "sorted_keys p1 = sorted_keys p2"
    unfolding sorted_keys_def by (rule sort_distinct_keys_eq [OF assms])
  have "p1 = [] \<longleftrightarrow> p2 = []"
    using assms(3) by (metis map_of_eq_empty_iff)
  then have l: "(length p1 \<noteq> 0) = (length p2 \<noteq> 0)" by simp
  show ?thesis
    unfolding append_root_terraform_block_def Let_def k l assms(3) ..
qed


lemma attr_of_replace:
  "replace_attr n e b = Some b' \<Longrightarrow> attr_of b' = (attr_of b)(n \<mapsto> e)"
  by (induction n e b arbitrary: b' rule: replace_attr.induct) (auto simp: fun_eq_iff split: if_splits)

lemma attr_of_append_None: "attr_of b n = None \<Longrightarrow> attr_of (b @ c) n = attr_of c n"
  by (induction b n rule: attr_of.induct) (auto split: if_splits)

lemma attr_of_set_attr [simp]: "attr_of (body_set_attr n e b) = (attr_of b)(n \<mapsto> e)"
proof (cases "replace_attr n e b")
  case None
  then have "attr_of b n = None"
    by (induction b n rule: attr_of.induct) (auto simp: replace_attr_None_iff split: if_splits)
  moreover have "attr_of (b @ [HAttr n e]) m = attr_of b m" if "m \<noteq> n" for m
    using that by (induction b m rule: attr_of.induct) auto
  ultimately show ?thesis
    using None by (auto simp: body_set_attr_def fun_eq_iff attr_of_append_None)
next
  case (Some b')
  then show ?thesis by (simp add: body_set_attr_def attr_of_replace)
qed

lemma attr_of_snoc_newline [simp]: "attr_of (b @ [HNewline]) = attr_of b"
  by (rule ext, induction b rule: attr_names.induct) auto

lemma attr_of_foldl_vars:
  "attr_of (foldl (\<lambda>mb name. body_set_attr name (HTraversal [''var'', name]) mb) mb vs) =
   (\<lambda>n. if n \<in> set vs then Some (HTraversal [''var'', n]) else attr_of mb n)"
  by (induction vs arbitrary: mb) (auto simp: fun_eq_iff)

text \<open>
  C11: the module block of \<^verbatim>\<open>main.tf\<close>, for every task and every list of variable
  names: it comes after the optional description comment, and under each name it holds
  the expression of the last call of \<^verbatim>\<open>appendRootModuleBlock\<close> that set that name. So
  every variable is passed as \<^verbatim>\<open>var.<name>\<close>, and a variable named
  \<^verbatim>\<open>services\<close>, \<^verbatim>\<open>version\<close> or \<^verbatim>\<open>source\<close> takes the place of the module's own
  argument; \<^verbatim>\<open>version\<close> is there only for a task with a version.
\<close>

theorem module_block_attrs:
  "\<exists>mb. append_root_module_block body t vs =
          body @ (if task_description t \<noteq> [] then [HComment (''# '' @ task_description t), HNewline] else []) @
          [HBlock ''module'' [task_name t] mb] \<and>
        attr_of mb =
          (\<lambda>n. if n \<in> set vs then Some (HTraversal [''var'', n])
               else if n = ''services'' then Some (HTraversal [''var'', ''services''])
               else if n = ''version'' \<and> task_version t \<noteq> [] then Some (HLit (RStr (task_version t)))
               else if n = ''source'' then Some (HLit (RStr (task_source t)))
               else None)"
  by (auto simp: append_root_module_block_def append_comment_def Let_def attr_of_foldl_vars fun_eq_iff)

end
