(* ===== verification/InitRootModule.thy ===== *)
theory InitRootModule
  imports MainTF
begin

text \<open>
  The writer of the root module, \<^verbatim>\<open>InitRootModule\<close> and \<^verbatim>\<open>fileExists\<close> of
  \<^verbatim>\<open>src/templates/tftmpl/root.go\<close> (lines 18 to 57, 131 to 206, 307 to 314), over an
  explicit model of the task directory.
  \<^item> The directory is a map from file name to file (\<open>task_dir\<close>); a file is its content
    (the sequence of chunks written to it), its mode and whether it was synced.
  \<^item> The operating system's failures are an environment \<open>io_env\<close> of fault predicates,
    one per system call the code makes: \<^verbatim>\<open>os.Stat\<close> failing with an error other than
    not-exist, \<^verbatim>\<open>os.Create\<close>, \<^verbatim>\<open>Chmod\<close>, the n-th \<^verbatim>\<open>Write\<close> to a file, and
    \<^verbatim>\<open>Sync\<close>. A failed write writes nothing, or, when \<open>write_torn\<close> holds for it, a
    part of its data before it fails (Go's \<^verbatim>\<open>Write\<close> returns an error whenever it
    wrote fewer bytes than asked, for instance on a full disk); the part is the chunk
    \<open>Torn c\<close>, a non-empty proper prefix of the bytes of \<open>c\<close>. \<open>fault_free\<close> is the
    environment with no fault.
  \<^item> \<^verbatim>\<open>os.Create\<close> creates an empty file of mode 0666 or truncates an existing one;
    \<^verbatim>\<open>Chmod\<close> sets the mode; each \<^verbatim>\<open>Write\<close> appends one chunk; \<^verbatim>\<open>Sync\<close> marks
    the file synced and its error is ignored, as the code ignores it.
  \<^item> \<^verbatim>\<open>rootFileFuncs\<close> is a Go map, and \<^verbatim>\<open>for range\<close> visits it in an order Go
    randomises: \<open>init_root_module\<close> takes that order as its argument \<open>entries\<close>, and the
    lemmas quantify over every permutation of \<open>root_file_funcs\<close>.
  \<^item> \<^verbatim>\<open>NewMainTF\<close> is \<open>new_main_tf\<close>. The three other renderers live outside
    \<^verbatim>\<open>src/\<close>; following the specification they write the preamble and then their body,
    modelled as the chunk \<open>Rendered r input\<close>, with the same error handling.
\<close>

definition root_filename :: string where "root_filename = ''main.tf''"
definition vars_filename :: string where "vars_filename = ''variables.tf''"
definition module_vars_filename :: string where "module_vars_filename = ''variables.module.tf''"
definition tfvars_tmpl_filename :: string where "tfvars_tmpl_filename = ''terraform.tfvars.tmpl''"

definition root_preamble :: string where
  "root_preamble =
     ''# This file is generated by Consul NIA.'' @ [CHR 0x0A] @
     ''#'' @ [CHR 0x0A] @
     ''# The HCL blocks, arguments, variables, and values are derived from the'' @ [CHR 0x0A] @
     ''# operator configuration for Consul NIA. Any manual changes to this file'' @ [CHR 0x0A] @
     ''# may not be preserved and could be clobbered by a subsequent update.'' @ [CHR 0x0A] @
     [CHR 0x0A]"

datatype renderer = NewMainTF | NewVariablesTF | NewModuleVariablesTF | NewTFVarsTmpl

datatype chunk =
    Bytes string
  | HclBody "hcl_item list"
  | Rendered renderer root_module_input_data
  | Torn chunk

record file_info =
  f_content :: "chunk list"
  f_mode :: nat
  f_synced :: bool

type_synonym task_dir = "string \<Rightarrow> file_info option"

record io_env =
  stat_fault :: "string \<Rightarrow> bool"
  create_fault :: "string \<Rightarrow> bool"
  chmod_fault :: "string \<Rightarrow> bool"
  write_fault :: "string \<Rightarrow> nat \<Rightarrow> bool"
  write_torn :: "string \<Rightarrow> nat \<Rightarrow> bool"
  sync_fault :: "string \<Rightarrow> bool"

definition fault_free :: io_env where
  "fault_free = \<lparr>stat_fault = (\<lambda>_. False), create_fault = (\<lambda>_. False), chmod_fault = (\<lambda>_. False),
                 write_fault = (\<lambda>_ _. False), write_torn = (\<lambda>_ _. False), sync_fault = (\<lambda>_. False)\<rparr>"

datatype stat_result = StatOk | StatNotExist | StatError

subsection \<open>System calls\<close>

definition os_stat :: "io_env \<Rightarrow> task_dir \<Rightarrow> string \<Rightarrow> stat_result" where
  "os_stat env dir fn =
     (if stat_fault env fn then StatError else if dir fn = None then StatNotExist else StatOk)"

definition os_create :: "io_env \<Rightarrow> string \<Rightarrow> task_dir \<Rightarrow> go_error option \<times> task_dir" where
  "os_create env fn dir =
     (if create_fault env fn then (Some (GoError (''open '' @ fn)), dir)
      else (None, dir(fn \<mapsto>
        (case dir fn of
           None \<Rightarrow> \<lparr>f_content = [], f_mode = 438, f_synced = False\<rparr>
         | Some f \<Rightarrow> f\<lparr>f_content := [], f_synced := False\<rparr>))))"

definition file_chmod :: "io_env \<Rightarrow> string \<Rightarrow> nat \<Rightarrow> task_dir \<Rightarrow> go_error option \<times> task_dir" where
  "file_chmod env fn perms dir =
     (case dir fn of
        None \<Rightarrow> (Some (GoError (''chmod '' @ fn)), dir)
      | Some f \<Rightarrow>
          (if chmod_fault env fn then (Some (GoError (''chmod '' @ fn)), dir)
           else (None, dir(fn \<mapsto> f\<lparr>f_mode := perms\<rparr>))))"

definition file_write :: "io_env \<Rightarrow> string \<Rightarrow> nat \<Rightarrow> chunk \<Rightarrow> task_dir \<Rightarrow> go_error option \<times> task_dir" where
  "file_write env fn k c dir =
     (case dir fn of
        None \<Rightarrow> (Some (GoError (''write '' @ fn)), dir)
      | Some f \<Rightarrow>
          (if write_fault env fn k then
             (Some (GoError (''write '' @ fn)),
              if write_torn env fn k then dir(fn \<mapsto> f\<lparr>f_content := f_content f @ [Torn c], f_synced := False\<rparr>)
              else dir)
           else (None, dir(fn \<mapsto> f\<lparr>f_content := f_content f @ [c], f_synced := False\<rparr>))))"

definition file_sync :: "io_env \<Rightarrow> string \<Rightarrow> task_dir \<Rightarrow> task_dir" where
  "file_sync env fn dir =
     (case dir fn of
        None \<Rightarrow> dir
      | Some f \<Rightarrow> (if sync_fault env fn then dir else dir(fn \<mapsto> f\<lparr>f_synced := True\<rparr>)))"

subsection \<open>Renderers and the writer\<close>

text \<open>\<^verbatim>\<open>NewMainTF\<close>: a failed preamble write is only logged; the body's error is returned.\<close>

definition new_main_tf ::
  "io_env \<Rightarrow> string \<Rightarrow> root_module_input_data \<Rightarrow> task_dir \<Rightarrow> go_error option \<times> task_dir" where
  "new_main_tf env fn input dir =
     (let (_, dir) = file_write env fn 0 (Bytes root_preamble) dir
      in file_write env fn 1 (HclBody (main_tf_body input)) dir)"

definition render_other ::
  "renderer \<Rightarrow> io_env \<Rightarrow> string \<Rightarrow> root_module_input_data \<Rightarrow> task_dir \<Rightarrow> go_error option \<times> task_dir" where
  "render_other r env fn input dir =
     (let (_, dir) = file_write env fn 0 (Bytes root_preamble) dir
      in file_write env fn 1 (Rendered r input) dir)"

fun render ::
  "renderer \<Rightarrow> io_env \<Rightarrow> string \<Rightarrow> root_module_input_data \<Rightarrow> task_dir \<Rightarrow> go_error option \<times> task_dir" where
  "render NewMainTF = new_main_tf"
| "render r = render_other r"

definition root_file_funcs :: "(string \<times> renderer) list" where
  "root_file_funcs =
     [(root_filename, NewMainTF), (vars_filename, NewVariablesTF),
      (module_vars_filename, NewModuleVariablesTF), (tfvars_tmpl_filename, NewTFVarsTmpl)]"

definition file_exists :: "io_env \<Rightarrow> task_dir \<Rightarrow> string \<Rightarrow> bool" where
  "file_exists env dir fn = (case os_stat env dir fn of StatNotExist \<Rightarrow> False | _ \<Rightarrow> True)"

text \<open>One iteration of the loop of \<^verbatim>\<open>InitRootModule\<close>.\<close>

definition process_file ::
  "io_env \<Rightarrow> root_module_input_data \<Rightarrow> nat \<Rightarrow> bool \<Rightarrow> task_dir \<Rightarrow> string \<times> renderer \<Rightarrow>
   go_error option \<times> task_dir" where
  "process_file env input perms force dir entry =
     (let (fn, r) = entry in
      if fn = module_vars_filename \<and> length (Variables input) = 0 then (None, dir)
      else
        (let exists = file_exists env dir fn in
         if exists \<and> \<not> force then (None, dir)
         else
           (case os_create env fn dir of
              (Some e, dir) \<Rightarrow> (Some e, dir)
            | (None, dir) \<Rightarrow>
                (case file_chmod env fn perms dir of
                   (Some e, dir) \<Rightarrow> (Some e, dir)
                 | (None, dir) \<Rightarrow>
                     (case render r env fn input dir of
                        (Some e, dir) \<Rightarrow> (Some e, dir)
                      | (None, dir) \<Rightarrow> (None, file_sync env fn dir))))))"

fun init_root_module ::
  "io_env \<Rightarrow> root_module_input_data \<Rightarrow> nat \<Rightarrow> bool \<Rightarrow> task_dir \<Rightarrow> (string \<times> renderer) list \<Rightarrow>
   go_error option \<times> task_dir" where
  "init_root_module env input perms force dir [] = (None, dir)"
| "init_root_module env input perms force dir (entry # entries) =
     (case process_file env input perms force dir entry of
        (Some e, dir) \<Rightarrow> (Some e, dir)
      | (None, dir) \<Rightarrow> init_root_module env input perms force dir entries)"

subsection \<open>The specification of one synthesis pass\<close>

text \<open>
  What a pass promises, file by file, independently of any iteration order: the canonical
  content of each file, and the directory after a pass without faults.
\<close>

fun body_chunk :: "renderer \<Rightarrow> root_module_input_data \<Rightarrow> chunk" where
  "body_chunk NewMainTF input = HclBody (main_tf_body input)"
| "body_chunk r input = Rendered r input"

definition canonical_file :: "renderer \<Rightarrow> root_module_input_data \<Rightarrow> nat \<Rightarrow> file_info" where
  "canonical_file r input perms =
     \<lparr>f_content = [Bytes root_preamble, body_chunk r input], f_mode = perms, f_synced = True\<rparr>"

definition spec_file ::
  "root_module_input_data \<Rightarrow> nat \<Rightarrow> bool \<Rightarrow> task_dir \<Rightarrow> string \<Rightarrow> renderer \<Rightarrow> file_info option" where
  "spec_file input perms force dir fn r =
     (if fn = module_vars_filename \<and> Variables input = [] then dir fn
      else (case dir fn of
              None \<Rightarrow> Some (canonical_file r input perms)
            | Some f \<Rightarrow> (if force then Some (canonical_file r input perms) else Some f)))"

definition synthesize_spec :: "root_module_input_data \<Rightarrow> nat \<Rightarrow> bool \<Rightarrow> task_dir \<Rightarrow> task_dir" where
  "synthesize_spec input perms force dir fn =
     (case map_of root_file_funcs fn of None \<Rightarrow> dir fn | Some r \<Rightarrow> spec_file input perms force dir fn r)"

subsection \<open>Lemmas on the system calls and the loop\<close>

lemma fault_free_simps [simp]:
  "\<not> stat_fault fault_free fn" "\<not> create_fault fault_free fn" "\<not> chmod_fault fault_free fn"
  "\<not> write_fault fault_free fn k" "\<not> write_torn fault_free fn k" "\<not> sync_fault fault_free fn"
  by (simp_all add: fault_free_def)

lemma os_create_ok:
  "\<not> create_fault env fn \<Longrightarrow>
   os_create env fn dir = (None, dir(fn \<mapsto>
     (case dir fn of None \<Rightarrow> \<lparr>f_content = [], f_mode = 438, f_synced = False\<rparr>
                   | Some f \<Rightarrow> f\<lparr>f_content := [], f_synced := False\<rparr>)))"
  by (simp add: os_create_def)

lemma file_chmod_ok:
  "dir fn = Some f \<Longrightarrow> \<not> chmod_fault env fn \<Longrightarrow> file_chmod env fn perms dir = (None, dir(fn \<mapsto> f\<lparr>f_mode := perms\<rparr>))"
  by (simp add: file_chmod_def)

lemma file_write_ok:
  "dir fn = Some f \<Longrightarrow> \<not> write_fault env fn k \<Longrightarrow>
   file_write env fn k c dir = (None, dir(fn \<mapsto> f\<lparr>f_content := f_content f @ [c], f_synced := False\<rparr>))"
  by (simp add: file_write_def)

lemma file_write_fail:
  "write_fault env fn k \<Longrightarrow> \<not> write_torn env fn k \<Longrightarrow> file_write env fn k c dir = (Some (GoError (''write '' @ fn)), dir)"
  by (simp add: file_write_def split: option.splits)

lemma file_sync_ok:
  "dir fn = Some f \<Longrightarrow> \<not> sync_fault env fn \<Longrightarrow> file_sync env fn dir = dir(fn \<mapsto> f\<lparr>f_synced := True\<rparr>)"
  by (simp add: file_sync_def)

lemma render_ok:
  "d fn = Some f \<Longrightarrow> \<not> write_fault env fn 0 \<Longrightarrow> \<not> write_fault env fn 1 \<Longrightarrow>
   render r env fn input d =
     (None, d(fn \<mapsto> f\<lparr>f_content := f_content f @ [Bytes root_preamble, body_chunk r input], f_synced := False\<rparr>))"
  by (cases r) (simp_all add: new_main_tf_def render_other_def file_write_ok)

lemma os_create_frame: "os_create env fn dir = (e, d') \<Longrightarrow> x \<noteq> fn \<Longrightarrow> d' x = dir x"
  by (auto simp: os_create_def split: if_splits)

lemma file_chmod_frame: "file_chmod env fn perms dir = (e, d') \<Longrightarrow> x \<noteq> fn \<Longrightarrow> d' x = dir x"
  by (auto simp: file_chmod_def split: if_splits option.splits)

lemma file_write_frame: "file_write env fn k c dir = (e, d') \<Longrightarrow> x \<noteq> fn \<Longrightarrow> d' x = dir x"
  by (auto simp: file_write_def split: if_splits option.splits)

lemma file_sync_frame: "x \<noteq> fn \<Longrightarrow> file_sync env fn dir x = dir x"
  by (simp add: file_sync_def split: option.splits)

lemma render_frame: "render r env fn input dir = (e, d') \<Longrightarrow> x \<noteq> fn \<Longrightarrow> d' x = dir x"
  by (cases r)
     (auto simp: new_main_tf_def render_other_def split: prod.splits dest!: file_write_frame)

lemma process_file_frame:
  assumes "x \<noteq> fst entry"
  shows "snd (process_file env input perms force dir entry) x = dir x"
proof -
  obtain fn r where e: "entry = (fn, r)" by fastforce
  with assms have "x \<noteq> fn" by simp
  then show ?thesis
    by (auto simp: process_file_def e Let_def file_sync_frame split: prod.splits option.splits
             dest!: os_create_frame file_chmod_frame render_frame)
qed

lemma process_file_fault_free:
  "process_file fault_free input perms force dir (fn, r) = (None, dir(fn := spec_file input perms force dir fn r))"
  by (cases "dir fn")
     (auto simp: process_file_def spec_file_def file_exists_def os_stat_def os_create_ok file_chmod_ok
        render_ok file_sync_ok canonical_file_def fun_eq_iff)

lemma spec_file_cong: "dir fn = dir' fn \<Longrightarrow> spec_file input perms force dir fn r = spec_file input perms force dir' fn r"
  by (auto simp: spec_file_def)

lemma init_root_module_fault_free:
  "distinct (map fst entries) \<Longrightarrow>
   init_root_module fault_free input perms force dir entries =
     (None, \<lambda>fn. case map_of entries fn of None \<Rightarrow> dir fn | Some r \<Rightarrow> spec_file input perms force dir fn r)"
proof (induction entries arbitrary: dir)
  case Nil
  then show ?case by simp
next
  case (Cons entry entries)
  obtain fn0 r0 where e: "entry = (fn0, r0)" by fastforce
  let ?dir' = "dir(fn0 := spec_file input perms force dir fn0 r0)"
  have "init_root_module fault_free input perms force dir (entry # entries) =
        init_root_module fault_free input perms force ?dir' entries"
    by (simp add: e process_file_fault_free)
  also have "\<dots> = (None, \<lambda>fn. case map_of entries fn of None \<Rightarrow> ?dir' fn | Some r \<Rightarrow> spec_file input perms force ?dir' fn r)"
    using Cons by simp
  also have "\<dots> = (None, \<lambda>fn. case map_of (entry # entries) fn of None \<Rightarrow> dir fn | Some r \<Rightarrow> spec_file input perms force dir fn r)"
  proof -
    have "fn0 \<notin> fst ` set entries" using Cons.prems e by simp
    then have "map_of entries fn0 = None" by (simp add: map_of_eq_None_iff)
    moreover have "spec_file input perms force ?dir' fn r = spec_file input perms force dir fn r"
      if "fn \<noteq> fn0" for fn r
      using that by (intro spec_file_cong) simp
    ultimately show ?thesis
      by (auto simp: e fun_eq_iff split: option.splits)
  qed
  finally show ?case .
qed

lemma root_file_funcs_perm:
  assumes "mset entries = mset root_file_funcs"
  shows "distinct (map fst entries) \<and> map_of entries = map_of root_file_funcs"
proof -
  have d: "distinct (map fst root_file_funcs)"
    by (simp add: root_file_funcs_def root_filename_def vars_filename_def module_vars_filename_def
        tfvars_tmpl_filename_def)
  have "mset (map fst entries) = mset (map fst root_file_funcs)"
    using assms by (simp add: mset_map)
  then have de: "distinct (map fst entries)"
    using d by (metis mset_eq_imp_distinct_iff)
  moreover have "set entries = set root_file_funcs"
    using assms by (rule mset_eq_setD)
  ultimately show ?thesis using d by (simp add: map_of_inject_set)
qed

lemma init_root_module_perm:
  "mset entries = mset root_file_funcs \<Longrightarrow>
   init_root_module fault_free input perms force dir entries = (None, synthesize_spec input perms force dir)"
  using root_file_funcs_perm [of entries]
  by (simp add: init_root_module_fault_free synthesize_spec_def fun_eq_iff)

lemma process_file_skip:
  "(fst entry = module_vars_filename \<and> Variables input = []) \<or> dir (fst entry) \<noteq> None \<Longrightarrow>
   process_file env input perms False dir entry = (None, dir)"
  by (cases entry) (auto simp: process_file_def file_exists_def os_stat_def)

lemma init_root_module_all_present:
  "\<forall>entry \<in> set entries. (fst entry = module_vars_filename \<and> Variables input = []) \<or> dir (fst entry) \<noteq> None \<Longrightarrow>
   init_root_module env input perms False dir entries = (None, dir)"
  by (induction entries) (simp_all add: process_file_skip)

lemma init_root_module_frame:
  "x \<notin> fst ` set entries \<Longrightarrow> snd (init_root_module env input perms force dir entries) x = dir x"
proof (induction entries arbitrary: dir)
  case Nil
  then show ?case by simp
next
  case (Cons entry entries)
  obtain e d where pf: "process_file env input perms force dir entry = (e, d)" by fastforce
  have "d x = dir x" using process_file_frame [of x entry env input perms force dir] pf Cons.prems by auto
  with Cons pf show ?case by (cases e) simp_all
qed

lemma init_root_module_Some:
  "init_root_module env input perms force dir entries = (Some e, d) \<Longrightarrow>
   \<exists>pre x post d0. entries = pre @ x # post \<and> init_root_module env input perms force dir pre = (None, d0) \<and>
     process_file env input perms force d0 x = (Some e, d)"
proof (induction entries arbitrary: dir)
  case Nil
  then show ?case by simp
next
  case (Cons entry entries)
  obtain e1 d1 where pf: "process_file env input perms force dir entry = (e1, d1)" by fastforce
  show ?case
  proof (cases e1)
    case None
    with Cons.prems pf have "init_root_module env input perms force d1 entries = (Some e, d)" by simp
    then obtain pre x post d0 where "entries = pre @ x # post"
        "init_root_module env input perms force d1 pre = (None, d0)" "process_file env input perms force d0 x = (Some e, d)"
      using Cons.IH by blast
    with pf None show ?thesis by (intro exI [of _ "entry # pre"]) auto
  next
    case (Some e')
    with Cons.prems pf show ?thesis by (intro exI [of _ "[]"]) auto
  qed
qed

subsection \<open>Properties of InitRootModule\<close>

text \<open>
  C25. Without I/O faults, and whatever order Go's map iteration visits the four file
  functions in, \<^verbatim>\<open>InitRootModule\<close> succeeds and leaves the directory the
  specification describes: every other file unchanged; the module-variables file untouched
  when the task has no variables; an existing file untouched unless forced; every other
  file (absent, or forced) holding exactly the preamble and its rendering, with the
  requested mode, synced.
\<close>

theorem init_root_module_refines:
  assumes "mset entries = mset root_file_funcs"
  shows "init_root_module fault_free input perms force dir entries = (None, synthesize_spec input perms force dir)"
  using assms by (rule init_root_module_perm)

theorem init_root_module_refines_witness:
  "mset root_file_funcs = mset root_file_funcs \<and>
   init_root_module fault_free (db_task_input []) 420 False Map.empty root_file_funcs =
     (None, synthesize_spec (db_task_input []) 420 False Map.empty)"
  using init_root_module_refines [of root_file_funcs "db_task_input []" 420 False Map.empty] by simp

text \<open>
  C27. Idempotent skip: after a fault-free run without \<open>force\<close>, a second run without
  \<open>force\<close>, in any iteration order and under any faults, reports no error and changes no
  file.
\<close>

theorem init_root_module_skip_idempotent:
  assumes "mset e = mset root_file_funcs" and "mset e' = mset root_file_funcs"
  shows "init_root_module env' input perms' False (snd (init_root_module fault_free input perms False dir e)) e' =
         (None, snd (init_root_module fault_free input perms False dir e))"
proof -
  let ?d = "synthesize_spec input perms False dir"
  have "(fst entry = module_vars_filename \<and> Variables input = []) \<or> ?d (fst entry) \<noteq> None"
    if "entry \<in> set e'" for entry
  proof -
    obtain fn r where en: "entry = (fn, r)" by fastforce
    have "entry \<in> set root_file_funcs" using that assms(2) by (metis mset_eq_setD)
    then have "map_of root_file_funcs fn = Some r"
      using root_file_funcs_perm [of root_file_funcs] en by (simp add: map_of_is_SomeI)
    then show ?thesis
      by (auto simp: en synthesize_spec_def spec_file_def split: option.splits)
  qed
  then show ?thesis
    using assms(1) by (simp add: init_root_module_perm init_root_module_all_present)
qed

theorem init_root_module_skip_idempotent_witness:
  "mset root_file_funcs = mset root_file_funcs \<and> mset (rev root_file_funcs) = mset root_file_funcs \<and>
   init_root_module (fault_free\<lparr>create_fault := (\<lambda>_. True)\<rparr>) (db_task_input []) 384 False
       (snd (init_root_module fault_free (db_task_input []) 420 False Map.empty root_file_funcs)) (rev root_file_funcs) =
     (None, snd (init_root_module fault_free (db_task_input []) 420 False Map.empty root_file_funcs))"
  using init_root_module_skip_idempotent [of root_file_funcs "rev root_file_funcs"
      "fault_free\<lparr>create_fault := (\<lambda>_. True)\<rparr>" "db_task_input []" 384 420 Map.empty]
  by simp

text \<open>
  C28. Forced overwrite: a fault-free forced run leaves every file it is responsible for
  holding its canonical rendering, whatever the file held before.
\<close>

theorem init_root_module_force_restores:
  assumes "mset e = mset root_file_funcs" and "(fn, r) \<in> set root_file_funcs"
    and "\<not> (fn = module_vars_filename \<and> Variables input = [])"
  shows "snd (init_root_module fault_free input perms True dir e) fn = Some (canonical_file r input perms)"
proof -
  have "map_of root_file_funcs fn = Some r"
    using assms(2) root_file_funcs_perm [of root_file_funcs] by (simp add: map_of_is_SomeI)
  with assms show ?thesis
    by (auto simp: init_root_module_perm synthesize_spec_def spec_file_def split: option.splits)
qed

theorem init_root_module_force_restores_witness:
  "mset root_file_funcs = mset root_file_funcs \<and> (root_filename, NewMainTF) \<in> set root_file_funcs \<and>
   \<not> (root_filename = module_vars_filename \<and> Variables (db_task_input []) = []) \<and>
   snd (init_root_module fault_free (db_task_input []) 420 True
          [root_filename \<mapsto> \<lparr>f_content = [Bytes ''edited''], f_mode = 511, f_synced = True\<rparr>] root_file_funcs)
       root_filename = Some (canonical_file NewMainTF (db_task_input []) 420)"
  using init_root_module_force_restores [of root_file_funcs root_filename NewMainTF "db_task_input []" 420
      "[root_filename \<mapsto> \<lparr>f_content = [Bytes ''edited''], f_mode = 511, f_synced = True\<rparr>]"]
  by (simp add: root_file_funcs_def root_filename_def module_vars_filename_def)

text \<open>
  C29. For a task without user variables, \<^verbatim>\<open>InitRootModule\<close> never creates, overwrites
  or truncates the module-variables file, whatever \<open>force\<close>, the iteration order and the
  faults.
\<close>

theorem init_root_module_no_module_vars:
  assumes "Variables input = []"
  shows "snd (init_root_module env input perms force dir entries) module_vars_filename = dir module_vars_filename"
  using assms
proof (induction entries arbitrary: dir)
  case Nil
  then show ?case by simp
next
  case (Cons entry entries)
  obtain e d where pf: "process_file env input perms force dir entry = (e, d)" by fastforce
  have "d module_vars_filename = dir module_vars_filename"
  proof (cases "fst entry = module_vars_filename")
    case True
    with Cons.prems pf show ?thesis by (cases entry) (simp add: process_file_def)
  next
    case False
    then have "module_vars_filename \<noteq> fst entry" by simp
    then have "snd (process_file env input perms force dir entry) module_vars_filename = dir module_vars_filename"
      by (rule process_file_frame)
    with pf show ?thesis by simp
  qed
  with Cons pf show ?case by (cases e) simp_all
qed

theorem init_root_module_no_module_vars_witness:
  "Variables (db_task_input []) = [] \<and>
   snd (init_root_module fault_free (db_task_input []) 420 True Map.empty root_file_funcs) module_vars_filename = None"
  using init_root_module_no_module_vars [of "db_task_input []" fault_free 420 True Map.empty root_file_funcs]
  by (simp add: db_task_input_def)

text \<open>
  C30. The first error ends the call: when \<^verbatim>\<open>InitRootModule\<close> returns an error, the
  files visited before the failing one were processed without error, the failing file's
  step returned that error, and no file visited after it was touched.
\<close>

theorem init_root_module_error_stops:
  assumes "distinct (map fst entries)" and "init_root_module env input perms force dir entries = (Some e, d)"
  shows "\<exists>pre x post d0. entries = pre @ x # post \<and> init_root_module env input perms force dir pre = (None, d0) \<and>
           process_file env input perms force d0 x = (Some e, d) \<and> (\<forall>fn \<in> fst ` set post. d fn = dir fn)"
proof -
  obtain pre x post d0 where split: "entries = pre @ x # post"
      and pre: "init_root_module env input perms force dir pre = (None, d0)"
      and x: "process_file env input perms force d0 x = (Some e, d)"
    using init_root_module_Some [OF assms(2)] by blast
  have "d fn = dir fn" if "fn \<in> fst ` set post" for fn
  proof -
    from assms(1) split have "fst x \<notin> fst ` set post" by simp
    with that have nx: "fn \<noteq> fst x" by blast
    from assms(1) split that have np: "fn \<notin> fst ` set pre" by auto
    have "d fn = d0 fn" using process_file_frame [of fn x env input perms force d0] x nx by simp
    moreover have "d0 fn = dir fn" using init_root_module_frame [of fn pre env input perms force dir] pre np by simp
    ultimately show ?thesis by simp
  qed
  with split pre x show ?thesis by blast
qed

theorem init_root_module_error_stops_witness:
  "distinct (map fst root_file_funcs) \<and>
   init_root_module (fault_free\<lparr>create_fault := (\<lambda>fn. fn = vars_filename)\<rparr>) (db_task_input []) 420 False
       Map.empty root_file_funcs =
     (Some (GoError ''open variables.tf''),
      snd (init_root_module (fault_free\<lparr>create_fault := (\<lambda>fn. fn = vars_filename)\<rparr>) (db_task_input []) 420 False
             Map.empty root_file_funcs)) \<and>
   (\<exists>pre x post d0. root_file_funcs = pre @ x # post \<and>
      init_root_module (fault_free\<lparr>create_fault := (\<lambda>fn. fn = vars_filename)\<rparr>) (db_task_input []) 420 False
        Map.empty pre = (None, d0) \<and>
      process_file (fault_free\<lparr>create_fault := (\<lambda>fn. fn = vars_filename)\<rparr>) (db_task_input []) 420 False d0 x =
        (Some (GoError ''open variables.tf''),
         snd (init_root_module (fault_free\<lparr>create_fault := (\<lambda>fn. fn = vars_filename)\<rparr>) (db_task_input []) 420 False
                Map.empty root_file_funcs)) \<and>
      (\<forall>fn \<in> fst ` set post.
         snd (init_root_module (fault_free\<lparr>create_fault := (\<lambda>fn. fn = vars_filename)\<rparr>) (db_task_input []) 420 False
                Map.empty root_file_funcs) fn = Map.empty fn))"
proof -
  let ?env = "fault_free\<lparr>create_fault := (\<lambda>fn. fn = vars_filename)\<rparr>"
  let ?r = "init_root_module ?env (db_task_input []) 420 False Map.empty root_file_funcs"
  have d: "distinct (map fst root_file_funcs)"
    by (simp add: root_file_funcs_def root_filename_def vars_filename_def module_vars_filename_def
        tfvars_tmpl_filename_def)
  have r: "?r = (Some (GoError ''open variables.tf''), snd ?r)"
    by (simp add: root_file_funcs_def process_file_def file_exists_def os_stat_def os_create_def
        file_chmod_def new_main_tf_def file_write_def file_sync_def fault_free_def db_task_input_def
        root_filename_def vars_filename_def module_vars_filename_def)
  show ?thesis using d r init_root_module_error_stops [OF d r] by blast
qed

text \<open>
  C31. A failed write of the ownership preamble is not reported: the call succeeds and
  \<^verbatim>\<open>main.tf\<close> holds the body without its preamble.
\<close>

theorem init_root_module_preamble_fault_ignored:
  "\<exists>d. init_root_module (fault_free\<lparr>write_fault := (\<lambda>fn k. fn = root_filename \<and> k = 0)\<rparr>)
          input perms force Map.empty root_file_funcs = (None, d) \<and>
       d root_filename = Some \<lparr>f_content = [HclBody (main_tf_body input)], f_mode = perms, f_synced = True\<rparr>"
  by (cases "Variables input = []")
     (simp_all add: root_file_funcs_def process_file_def file_exists_def os_stat_def os_create_def
        file_chmod_def new_main_tf_def render_other_def file_write_def file_sync_def fault_free_def
        root_filename_def vars_filename_def module_vars_filename_def tfvars_tmpl_filename_def)

text \<open>
  C32. A failed \<^verbatim>\<open>Sync\<close> is not reported: the call succeeds with \<^verbatim>\<open>main.tf\<close>
  written but not flushed to stable storage.
\<close>

theorem init_root_module_sync_fault_ignored:
  "\<exists>d. init_root_module (fault_free\<lparr>sync_fault := (\<lambda>fn. fn = root_filename)\<rparr>)
          input perms force Map.empty root_file_funcs = (None, d) \<and>
       d root_filename = Some \<lparr>f_content = [Bytes root_preamble, HclBody (main_tf_body input)], f_mode = perms, f_synced = False\<rparr>"
  by (cases "Variables input = []")
     (simp_all add: root_file_funcs_def process_file_def file_exists_def os_stat_def os_create_def
        file_chmod_def new_main_tf_def render_other_def file_write_def file_sync_def fault_free_def
        root_filename_def vars_filename_def module_vars_filename_def tfvars_tmpl_filename_def)

text \<open>
  C33. \<^verbatim>\<open>fileExists\<close> treats a stat error other than not-exist as existence: with
  such an error on \<^verbatim>\<open>main.tf\<close> and no \<open>force\<close>, the call reports success while
  \<^verbatim>\<open>main.tf\<close> does not exist.
\<close>

theorem init_root_module_stat_error_skips:
  "\<exists>d. init_root_module (fault_free\<lparr>stat_fault := (\<lambda>fn. fn = root_filename)\<rparr>)
          input perms False Map.empty root_file_funcs = (None, d) \<and> d root_filename = None"
  by (cases "Variables input = []")
     (simp_all add: root_file_funcs_def process_file_def file_exists_def os_stat_def os_create_def
        file_chmod_def new_main_tf_def render_other_def file_write_def file_sync_def fault_free_def
        root_filename_def vars_filename_def module_vars_filename_def tfvars_tmpl_filename_def)

text \<open>
  C34. A forced overwrite whose \<^verbatim>\<open>Chmod\<close> fails reports the error and leaves the
  existing file truncated to nothing (\<^verbatim>\<open>os.Create\<close> already emptied it).
\<close>

theorem process_file_chmod_fault_truncates:
  assumes "dir fn = Some f" and "\<not> create_fault env fn" and "chmod_fault env fn"
    and "\<not> (fn = module_vars_filename \<and> Variables input = [])"
  shows "process_file env input perms True dir (fn, r) =
           (Some (GoError (''chmod '' @ fn)), dir(fn \<mapsto> f\<lparr>f_content := [], f_synced := False\<rparr>))"
  using assms by (auto simp: process_file_def os_create_ok file_chmod_def)

theorem process_file_chmod_fault_truncates_witness:
  "[root_filename \<mapsto> \<lparr>f_content = [Bytes ''edited''], f_mode = 420, f_synced = True\<rparr>] root_filename =
     Some \<lparr>f_content = [Bytes ''edited''], f_mode = 420, f_synced = True\<rparr> \<and>
   \<not> create_fault (fault_free\<lparr>chmod_fault := (\<lambda>_. True)\<rparr>) root_filename \<and>
   chmod_fault (fault_free\<lparr>chmod_fault := (\<lambda>_. True)\<rparr>) root_filename \<and>
   \<not> (root_filename = module_vars_filename \<and> Variables (db_task_input []) = []) \<and>
   process_file (fault_free\<lparr>chmod_fault := (\<lambda>_. True)\<rparr>) (db_task_input []) 420 True
       [root_filename \<mapsto> \<lparr>f_content = [Bytes ''edited''], f_mode = 420, f_synced = True\<rparr>] (root_filename, NewMainTF) =
     (Some (GoError (''chmod '' @ root_filename)),
      [root_filename \<mapsto> \<lparr>f_content = [], f_mode = 420, f_synced = False\<rparr>])"
  using process_file_chmod_fault_truncates [of
      "[root_filename \<mapsto> \<lparr>f_content = [Bytes ''edited''], f_mode = 420, f_synced = True\<rparr>]" root_filename
      "\<lparr>f_content = [Bytes ''edited''], f_mode = 420, f_synced = True\<rparr>" "fault_free\<lparr>chmod_fault := (\<lambda>_. True)\<rparr>"
      "db_task_input []" 420 NewMainTF]
  by (simp add: fault_free_def root_filename_def module_vars_filename_def)

text \<open>
  C35. Under I/O faults the outcome depends on Go's random map iteration order: with
  \<^verbatim>\<open>os.Create\<close> failing on \<^verbatim>\<open>main.tf\<close>, one order writes \<^verbatim>\<open>variables.tf\<close>
  before failing and another fails before writing anything.
\<close>

theorem init_root_module_fault_order_dependent:
  "\<exists>env e1 e2. mset e1 = mset root_file_funcs \<and> mset e2 = mset root_file_funcs \<and>
     snd (init_root_module env input perms force Map.empty e1) \<noteq> snd (init_root_module env input perms force Map.empty e2)"
proof (intro exI conjI)
  let ?env = "fault_free\<lparr>create_fault := (\<lambda>fn. fn = root_filename)\<rparr>"
  let ?e2 = "[(vars_filename, NewVariablesTF), (root_filename, NewMainTF),
              (module_vars_filename, NewModuleVariablesTF), (tfvars_tmpl_filename, NewTFVarsTmpl)]"
  show "mset root_file_funcs = mset root_file_funcs" ..
  show "mset ?e2 = mset root_file_funcs" by (simp add: root_file_funcs_def)
  have "snd (init_root_module ?env input perms force Map.empty root_file_funcs) vars_filename = None"
    by (simp add: root_file_funcs_def process_file_def file_exists_def os_stat_def os_create_def fault_free_def
        root_filename_def vars_filename_def module_vars_filename_def)
  moreover have "snd (init_root_module ?env input perms force Map.empty ?e2) vars_filename \<noteq> None"
    by (simp add: process_file_def file_exists_def os_stat_def os_create_def file_chmod_def
        render_other_def file_write_def file_sync_def fault_free_def
        root_filename_def vars_filename_def module_vars_filename_def)
  ultimately show "snd (init_root_module ?env input perms force Map.empty root_file_funcs) \<noteq>
                   snd (init_root_module ?env input perms force Map.empty ?e2)"
    by (metis option.distinct(1))
qed

end
