(* ===== verification/WriterRuns.thy ===== *)
theory WriterRuns
  imports InitRootModule
begin

text \<open>
  The task directory across the life of a task: \<^verbatim>\<open>InitRootModule\<close> runs again on every
  update of the task, with new input, permissions and force flag, and any run may be cut
  short by an I/O fault. The directories that such runs can produce are the reachable
  states of \<open>writer_reachable\<close>, from a directory that holds none of the four files. The
  invariant \<open>dir_wf\<close> describes what a managed file can hold in any of them: at most a
  preamble followed by at most a body of its own renderer, where a write cut short by a
  fault leaves a torn preamble or a torn body, and the file is marked synced only when its
  last chunk is a whole body.
\<close>

fun is_body_chunk :: "renderer \<Rightarrow> chunk \<Rightarrow> bool" where
  "is_body_chunk r (HclBody _) = (r = NewMainTF)"
| "is_body_chunk r (Rendered r' _) = (r' = r \<and> r \<noteq> NewMainTF)"
| "is_body_chunk r _ = False"

fun is_torn_body :: "renderer \<Rightarrow> chunk \<Rightarrow> bool" where
  "is_torn_body r (Torn c) = is_body_chunk r c"
| "is_torn_body r _ = False"

fun is_preamble :: "chunk \<Rightarrow> bool" where
  "is_preamble (Bytes s) = (s = root_preamble)"
| "is_preamble (Torn (Bytes s)) = (s = root_preamble)"
| "is_preamble _ = False"

definition file_wf :: "renderer \<Rightarrow> file_info \<Rightarrow> bool" where
  "file_wf r f =
     (case f_content f of
        [] \<Rightarrow> \<not> f_synced f
      | [c] \<Rightarrow> (is_preamble c \<and> \<not> f_synced f) \<or> is_body_chunk r c \<or> (is_torn_body r c \<and> \<not> f_synced f)
      | [c1, c2] \<Rightarrow> is_preamble c1 \<and> (is_body_chunk r c2 \<or> (is_torn_body r c2 \<and> \<not> f_synced f))
      | _ \<Rightarrow> False)"

text \<open>
  What one call of a renderer can append to a file: the preamble whole, torn or not at all,
  then, when the call returns nil, the whole body, and otherwise a torn body or nothing.
\<close>

definition rendered_shapes :: "renderer \<Rightarrow> root_module_input_data \<Rightarrow> go_error option \<Rightarrow> chunk list list" where
  "rendered_shapes r input e =
     (let ps = [[], [Bytes root_preamble], [Torn (Bytes root_preamble)]]
      in if e = None then map (\<lambda>p. p @ [body_chunk r input]) ps
         else ps @ map (\<lambda>p. p @ [Torn (body_chunk r input)]) ps)"

definition dir_wf :: "task_dir \<Rightarrow> bool" where
  "dir_wf d \<longleftrightarrow> (\<forall>(fn, r) \<in> set root_file_funcs. case d fn of None \<Rightarrow> True | Some f \<Rightarrow> file_wf r f)"

inductive writer_reachable :: "task_dir \<Rightarrow> bool" where
  fresh: "(\<forall>fn \<in> fst ` set root_file_funcs. d fn = None) \<Longrightarrow> writer_reachable d"
| run: "writer_reachable d \<Longrightarrow> mset entries = mset root_file_funcs \<Longrightarrow>
        writer_reachable (snd (init_root_module env input perms force d entries))"

subsection \<open>One pass keeps the invariant\<close>

lemma body_chunk_is_body [simp]: "is_body_chunk r (body_chunk r input)"
  by (cases r) simp_all

lemma render_content:
  assumes "d fn = Some f" and "\<not> f_synced f" and "render r env fn input d = (e, d')"
  shows "\<exists>f'. d' fn = Some f' \<and> \<not> f_synced f' \<and>
           (\<exists>cs \<in> set (rendered_shapes r input e). f_content f' = f_content f @ cs)"
  using assms
  by (cases r; cases "write_fault env fn 0"; cases "write_torn env fn 0";
      cases "write_fault env fn 1"; cases "write_torn env fn 1")
     (auto simp: new_main_tf_def render_other_def file_write_def rendered_shapes_def)

lemma file_wf_fresh: "f_content f = [] \<Longrightarrow> \<not> f_synced f \<Longrightarrow> file_wf r f"
  by (simp add: file_wf_def)

lemma file_wf_rendered:
  assumes "\<not> f_synced f'" and "f_content f' \<in> set (rendered_shapes r input e)"
  shows "file_wf r f'" and "e = None \<Longrightarrow> file_wf r (f'\<lparr>f_synced := True\<rparr>)"
proof -
  show "file_wf r f'"
    using assms by (cases e) (auto simp: file_wf_def rendered_shapes_def Let_def)
  assume "e = None"
  with assms(2) show "file_wf r (f'\<lparr>f_synced := True\<rparr>)"
    by (auto simp: file_wf_def rendered_shapes_def Let_def)
qed

lemma process_file_wf:
  assumes "process_file env input perms force d (fn, r) = (e, d')"
  shows "d' fn = d fn \<or> (\<exists>f. d' fn = Some f \<and> file_wf r f)"
proof (cases "(fn = module_vars_filename \<and> length (Variables input) = 0) \<or> (file_exists env d fn \<and> \<not> force)")
  case True
  then show ?thesis using assms by (auto simp: process_file_def Let_def split: if_splits)
next
  case False
  obtain ec d1 where c: "os_create env fn d = (ec, d1)" by fastforce
  show ?thesis
  proof (cases ec)
    case (Some err)
    then show ?thesis
      using assms False c by (auto simp: process_file_def os_create_def split: if_splits)
  next
    case None
    define f0 where "f0 = (case d fn of None \<Rightarrow> \<lparr>f_content = [], f_mode = 438, f_synced = False\<rparr>
                                    | Some f \<Rightarrow> f\<lparr>f_content := [], f_synced := False\<rparr>)"
    have d1: "d1 fn = Some f0" and f0: "f_content f0 = []" "\<not> f_synced f0"
      using c None by (auto simp: os_create_def f0_def split: if_splits option.split)
    obtain ech d2 where ch: "file_chmod env fn perms d1 = (ech, d2)" by fastforce
    show ?thesis
    proof (cases ech)
      case (Some err)
      then have "d' = d2" "d2 = d1"
        using assms False c None ch d1 by (auto simp: process_file_def file_chmod_def split: if_splits)
      then show ?thesis using d1 f0 file_wf_fresh by simp
    next
      case None
      let ?f1 = "f0\<lparr>f_mode := perms\<rparr>"
      have d2: "d2 fn = Some ?f1"
        using ch None d1 by (auto simp: file_chmod_def split: if_splits)
      obtain er d3 where rd: "render r env fn input d2 = (er, d3)" by fastforce
      have "\<not> f_synced ?f1" using f0 by simp
      from render_content [OF d2 this rd] obtain f' where f': "d3 fn = Some f'" "\<not> f_synced f'"
        and shape0: "\<exists>cs \<in> set (rendered_shapes r input er). f_content f' = f_content ?f1 @ cs"
        by blast
      have shape: "f_content f' \<in> set (rendered_shapes r input er)"
        using f0 shape0 by auto
      have res: "(er, d') = (if er = None then (None, file_sync env fn d3) else (er, d3))"
        using assms False c \<open>ec = None\<close> ch None rd by (auto simp: process_file_def)
      show ?thesis
      proof (cases er)
        case None
        with res f' have "d' fn = Some f' \<or> d' fn = Some (f'\<lparr>f_synced := True\<rparr>)"
          by (auto simp: file_sync_def)
        then show ?thesis using file_wf_rendered [OF f'(2) shape] None by blast
      next
        case (Some err)
        with res f' show ?thesis using file_wf_rendered(1) [OF f'(2) shape] by auto
      qed
    qed
  qed
qed

lemma root_file_funcs_functional:
  "(fn, r) \<in> set root_file_funcs \<Longrightarrow> (fn, r') \<in> set root_file_funcs \<Longrightarrow> r = r'"
  by (auto simp: root_file_funcs_def root_filename_def vars_filename_def module_vars_filename_def
        tfvars_tmpl_filename_def)

lemma process_file_dir_wf:
  assumes "(fn, r) \<in> set root_file_funcs" and "dir_wf d"
  shows "dir_wf (snd (process_file env input perms force d (fn, r)))"
  unfolding dir_wf_def
proof (intro ballI, clarify)
  fix fn' r' assume mem: "(fn', r') \<in> set root_file_funcs"
  obtain e d' where pf: "process_file env input perms force d (fn, r) = (e, d')" by fastforce
  have old: "case d fn' of None \<Rightarrow> True | Some f \<Rightarrow> file_wf r' f"
    using assms(2) mem by (auto simp: dir_wf_def)
  show "case snd (process_file env input perms force d (fn, r)) fn' of None \<Rightarrow> True | Some f \<Rightarrow> file_wf r' f"
  proof (cases "fn' = fn")
    case True
    then have "r' = r" using mem assms(1) root_file_funcs_functional by blast
    then show ?thesis using process_file_wf [OF pf] old pf True by auto
  next
    case False
    then show ?thesis using process_file_frame [of fn' "(fn, r)"] old by simp
  qed
qed

lemma init_root_module_dir_wf:
  "set entries \<subseteq> set root_file_funcs \<Longrightarrow> dir_wf d \<Longrightarrow>
   dir_wf (snd (init_root_module env input perms force d entries))"
proof (induction entries arbitrary: d)
  case Nil
  then show ?case by simp
next
  case (Cons entry entries)
  obtain fn r where e: "entry = (fn, r)" by fastforce
  obtain err d' where pf: "process_file env input perms force d (fn, r) = (err, d')" by fastforce
  have "dir_wf d'"
    using process_file_dir_wf [of fn r d env input perms force] Cons.prems e pf by simp
  then show ?case
    using Cons e pf by (cases err) simp_all
qed

text \<open>
  C26: in every directory that a sequence of runs can produce, with any inputs, any
  permissions, any force flags, any iteration orders and any I/O faults, short writes
  included, each managed file holds at most a preamble, whole or torn, followed by at most
  one body of its own renderer, whole or torn, and is marked synced only when it ends with
  a whole body. No run leaves two bodies, a body of another renderer, or a preamble after
  a body. The witness is a run whose short write of the preamble is ignored: it returns
  nil and leaves a synced main.tf that starts with a torn preamble.
\<close>

theorem writer_reachable_wf: "writer_reachable d \<Longrightarrow> dir_wf d"
proof (induction rule: writer_reachable.induct)
  case (fresh d)
  then show ?case by (auto simp: dir_wf_def)
next
  case (run d entries env input perms force)
  then have "set entries = set root_file_funcs" by (metis mset_eq_setD)
  with run show ?case by (simp add: init_root_module_dir_wf)
qed

theorem writer_reachable_wf_witness:
  "writer_reachable (snd (init_root_module (fault_free\<lparr>write_fault := \<lambda>fn k. fn = root_filename \<and> k = 0, write_torn := \<lambda>fn k. fn = root_filename \<and> k = 0\<rparr>) (db_task_input []) 420 False Map.empty root_file_funcs)) \<and>
   dir_wf (snd (init_root_module (fault_free\<lparr>write_fault := \<lambda>fn k. fn = root_filename \<and> k = 0, write_torn := \<lambda>fn k. fn = root_filename \<and> k = 0\<rparr>) (db_task_input []) 420 False Map.empty root_file_funcs)) \<and>
   fst (init_root_module (fault_free\<lparr>write_fault := \<lambda>fn k. fn = root_filename \<and> k = 0, write_torn := \<lambda>fn k. fn = root_filename \<and> k = 0\<rparr>) (db_task_input []) 420 False Map.empty root_file_funcs) = None \<and>
   snd (init_root_module (fault_free\<lparr>write_fault := \<lambda>fn k. fn = root_filename \<and> k = 0, write_torn := \<lambda>fn k. fn = root_filename \<and> k = 0\<rparr>) (db_task_input []) 420 False Map.empty root_file_funcs) root_filename =
     Some \<lparr>f_content = [Torn (Bytes root_preamble), HclBody (main_tf_body (db_task_input []))],
           f_mode = 420, f_synced = True\<rparr>"
proof -
  let ?r = "init_root_module (fault_free\<lparr>write_fault := \<lambda>fn k. fn = root_filename \<and> k = 0, write_torn := \<lambda>fn k. fn = root_filename \<and> k = 0\<rparr>) (db_task_input []) 420 False Map.empty root_file_funcs"
  have r: "writer_reachable (snd ?r)"
    by (rule writer_reachable.run [OF writer_reachable.fresh]) simp_all
  have "?r = (None, snd ?r) \<and> snd ?r root_filename =
     Some \<lparr>f_content = [Torn (Bytes root_preamble), HclBody (main_tf_body (db_task_input []))],
           f_mode = 420, f_synced = True\<rparr>"
    by (simp add: root_file_funcs_def process_file_def file_exists_def os_stat_def os_create_def
          file_chmod_def new_main_tf_def render_other_def file_write_def file_sync_def fault_free_def
          root_filename_def vars_filename_def module_vars_filename_def tfvars_tmpl_filename_def)
  with r writer_reachable_wf [OF r] show ?thesis by (metis fst_conv)
qed

end
