(* ===== verification/Api.thy ===== *)
theory Api
  imports Prelude
begin

text \<open>
  The generated HTTP layer of \<^verbatim>\<open>src/api/oapigen/server.go\<close>: the wrapper that binds
  the parameters of a request and runs the middleware chain around the task handlers,
  the router built by \<^verbatim>\<open>HandlerWithOptions\<close>, and the embedded OpenAPI document with
  \<^verbatim>\<open>GetSwagger\<close>'s resolver of external references.

  A handler maps a request to its response (\<open>'r http_result\<close>): an error written by
  \<^verbatim>\<open>http.Error\<close>, or what the task handler produces, of type \<open>'r\<close>. A middleware
  maps a handler to a handler. The library functions the code calls are modelled from
  their documented behaviour: \<^verbatim>\<open>url.Values\<close>, \<^verbatim>\<open>http.Error\<close>, chi's routing,
  oapi-codegen's \<^verbatim>\<open>BindQueryParameter\<close> and \<^verbatim>\<open>BindStyledParameter\<close>. What the
  model cannot fix, it takes as a parameter: the unescaping that
  \<^verbatim>\<open>BindStyledParameter\<close> applies to a path value (\<open>unescape\<close>),
  \<^verbatim>\<open>path.Clean\<close> (\<open>clean\<close>), the base64 and gzip decoders and the OpenAPI loader
  (\<open>load\<close>), so the lemmas hold for every behaviour of these functions.
\<close>

section \<open>Requests, responses, handlers\<close>

record request =
  req_method :: string
  req_path :: string
  req_query :: "(string \<times> string) list"
  req_url_params :: "(string \<times> string) list"

datatype 'r http_result = HttpError nat string | Served 'r

type_synonym 'r handler = "request \<Rightarrow> 'r http_result"

type_synonym 'r middleware_func = "'r handler \<Rightarrow> 'r handler"

fun error_string :: "go_error \<Rightarrow> string" where
  "error_string (GoError m) = m"

text \<open>Go's \<open>'%s'\<close> in a format string.\<close>

definition quote_str :: "string \<Rightarrow> string" where
  "quote_str s = CHR 0x27 # s @ [CHR 0x27]"

text \<open>\<^verbatim>\<open>http.Error\<close> writes the message followed by a newline.\<close>

definition http_error :: "nat \<Rightarrow> string \<Rightarrow> 'r http_result" where
  "http_error code msg = HttpError code (msg @ [CHR 0x0A])"

text \<open>\<^verbatim>\<open>url.Values\<close>: the values given for a key, in the order of the query.\<close>

definition query_values :: "(string \<times> string) list \<Rightarrow> string \<Rightarrow> string list" where
  "query_values q k = map snd (filter (\<lambda>p. fst p = k) q)"

text \<open>\<^verbatim>\<open>chi.URLParam\<close>: the value the router bound to a pattern parameter, or empty.\<close>

definition url_param :: "request \<Rightarrow> string \<Rightarrow> string" where
  "url_param r k = (case map_of (req_url_params r) k of Some v \<Rightarrow> v | None \<Rightarrow> [])"

section \<open>Parameter binding\<close>

text \<open>
  \<^verbatim>\<open>runtime.BindQueryParameter("form", true, false, name, query, &dest)\<close> with a
  destination of type \<^verbatim>\<open>*string\<close>: an optional exploded parameter that is absent
  leaves \<^verbatim>\<open>nil\<close>; a single value is bound; several values are an error.
\<close>

definition bind_query_parameter :: "string \<Rightarrow> (string \<times> string) list \<Rightarrow> go_error + string option" where
  "bind_query_parameter name q =
     (case query_values q name of
        [] \<Rightarrow> Inr None
      | [v] \<Rightarrow> Inr (Some v)
      | _ \<Rightarrow> Inl (GoError (''multiple values for single value parameter '' @ quote_str name)))"

text \<open>
  \<^verbatim>\<open>runtime.BindStyledParameter("simple", false, name, value, &dest)\<close> with a
  destination of type \<^verbatim>\<open>string\<close>: an empty value is an error, any other value is
  unescaped and bound.
\<close>

definition bind_styled_parameter ::
  "(string \<Rightarrow> go_error + string) \<Rightarrow> string \<Rightarrow> string \<Rightarrow> go_error + string" where
  "bind_styled_parameter unescape name value =
     (if value = [] then Inl (GoError (''parameter '' @ quote_str name @ '' is empty, can't bind its value''))
      else unescape value)"

section \<open>The server interface and its wrapper\<close>

record create_task_params =
  Run :: "string option"

record 'r server_interface =
  CreateTask :: "request \<Rightarrow> create_task_params \<Rightarrow> 'r"
  DeleteTaskByName :: "request \<Rightarrow> string \<Rightarrow> 'r"

record 'r server_interface_wrapper =
  Handler :: "'r server_interface"
  HandlerMiddlewares :: "'r middleware_func list"

text \<open>\<^verbatim>\<open>for _, middleware := range mws { handler = middleware(handler) }\<close>.\<close>

definition chain_middlewares :: "'r middleware_func list \<Rightarrow> 'r handler \<Rightarrow> 'r handler" where
  "chain_middlewares mws h = foldl (\<lambda>h m. m h) h mws"

definition siw_create_task :: "'r server_interface_wrapper \<Rightarrow> 'r handler" where
  "siw_create_task siw r =
     (case bind_query_parameter ''run'' (req_query r) of
        Inl err \<Rightarrow> http_error 400 (''Invalid format for parameter run: '' @ error_string err)
      | Inr run \<Rightarrow>
          chain_middlewares (HandlerMiddlewares siw)
            (\<lambda>r. Served (CreateTask (Handler siw) r \<lparr>Run = run\<rparr>)) r)"

definition siw_delete_task_by_name ::
  "(string \<Rightarrow> go_error + string) \<Rightarrow> 'r server_interface_wrapper \<Rightarrow> 'r handler" where
  "siw_delete_task_by_name unescape siw r =
     (case bind_styled_parameter unescape ''name'' (url_param r ''name'') of
        Inl err \<Rightarrow> http_error 400 (''Invalid format for parameter name: '' @ error_string err)
      | Inr name \<Rightarrow>
          chain_middlewares (HandlerMiddlewares siw)
            (\<lambda>r. Served (DeleteTaskByName (Handler siw) r name)) r)"

section \<open>The router\<close>

text \<open>
  chi's routing of the two registered patterns: a pattern and a path are split at
  \<^verbatim>\<open>/\<close>; a segment \<^verbatim>\<open>{p}\<close> of the pattern matches one non-empty segment of
  the path and binds it to \<open>p\<close>, any other segment matches itself. A request whose path
  matches a route of another method is answered 405 with an empty body, one that matches
  no route is answered by \<^verbatim>\<open>http.NotFound\<close>.
\<close>

fun split_path :: "string \<Rightarrow> string list" where
  "split_path [] = [[]]"
| "split_path (c # cs) =
     (if c = CHR ''/'' then [] # split_path cs
      else (case split_path cs of w # ws \<Rightarrow> (c # w) # ws | [] \<Rightarrow> [[c]]))"

definition is_param_seg :: "string \<Rightarrow> bool" where
  "is_param_seg s \<longleftrightarrow> s \<noteq> [] \<and> hd s = CHR ''{'' \<and> last s = CHR ''}''"

definition param_name :: "string \<Rightarrow> string" where
  "param_name s = butlast (tl s)"

fun match_pattern :: "string list \<Rightarrow> string list \<Rightarrow> (string \<times> string) list option" where
  "match_pattern [] [] = Some []"
| "match_pattern (p # ps) (s # ss) =
     (if is_param_seg p then
        (if s = [] then None else map_option (\<lambda>b. (param_name p, s) # b) (match_pattern ps ss))
      else if p = s then match_pattern ps ss else None)"
| "match_pattern _ _ = None"

fun chi_route :: "(string \<times> string \<times> 'r handler) list \<Rightarrow> bool \<Rightarrow> 'r handler" where
  "chi_route [] allowed r =
     (if allowed then HttpError 405 [] else http_error 404 ''404 page not found'')"
| "chi_route ((m, pat, h) # rs) allowed r =
     (case match_pattern (split_path pat) (split_path (req_path r)) of
        Some ps \<Rightarrow> (if m = req_method r then h (r\<lparr>req_url_params := ps\<rparr>) else chi_route rs True r)
      | None \<Rightarrow> chi_route rs allowed r)"

record 'r chi_server_options =
  BaseURL :: string
  Middlewares :: "'r middleware_func list"

definition handler_with_options ::
  "(string \<Rightarrow> go_error + string) \<Rightarrow> 'r server_interface \<Rightarrow> 'r chi_server_options \<Rightarrow> 'r handler" where
  "handler_with_options unescape si options =
     (let wrapper = \<lparr>Handler = si, HandlerMiddlewares = Middlewares options\<rparr>
      in chi_route
           [(''POST'', BaseURL options @ ''/v1/tasks'', siw_create_task wrapper),
            (''DELETE'', BaseURL options @ ''/v1/tasks/{name}'', siw_delete_task_by_name unescape wrapper)]
           False)"

text \<open>\<^verbatim>\<open>Handler\<close>: the routes on a new router, with no base URL and no middleware.\<close>

definition handler :: "(string \<Rightarrow> go_error + string) \<Rightarrow> 'r server_interface \<Rightarrow> 'r handler" where
  "handler unescape si = handler_with_options unescape si \<lparr>BaseURL = [], Middlewares = []\<rparr>"

section \<open>The embedded OpenAPI document\<close>

text \<open>
  \<^verbatim>\<open>decodeSpec\<close>: base64-decode the joined chunks, open a gzip reader on the result,
  read it to the end; each failure is wrapped with its own prefix. The decoders are
  parameters.
\<close>

definition decode_spec ::
  "(string \<Rightarrow> go_error + string) \<Rightarrow> (string \<Rightarrow> go_error + 'z) \<Rightarrow> ('z \<Rightarrow> go_error + string) \<Rightarrow>
   string list \<Rightarrow> go_error + string" where
  "decode_spec b64_decode gzip_open read_all chunks =
     (case b64_decode (concat chunks) of
        Inl err \<Rightarrow> Inl (GoError (''error base64 decoding spec: '' @ error_string err))
      | Inr zipped \<Rightarrow>
          (case gzip_open zipped of
             Inl err \<Rightarrow> Inl (GoError (''error decompressing spec: '' @ error_string err))
           | Inr zr \<Rightarrow>
               (case read_all zr of
                  Inl err \<Rightarrow> Inl (GoError (''error decompressing spec: '' @ error_string err))
                | Inr buf \<Rightarrow> Inr buf)))"

text \<open>
  \<^verbatim>\<open>decodeSpecCached\<close> decodes once, at package initialisation, and returns a closure
  that answers the stored result; \<^verbatim>\<open>rawSpec\<close> is that closure, represented by the
  stored result.
\<close>

type_synonym raw_spec = "go_error + string"

definition decode_spec_cached :: "go_error + string \<Rightarrow> unit \<Rightarrow> raw_spec" where
  "decode_spec_cached decoded = (\<lambda>_. decoded)"

definition path_to_raw_spec :: "string \<Rightarrow> raw_spec \<Rightarrow> raw_spec go_map" where
  "path_to_raw_spec path_to_file raw = (if length path_to_file > 0 then [(path_to_file, raw)] else [])"

definition read_from_uri ::
  "raw_spec go_map \<Rightarrow> (string \<Rightarrow> string) \<Rightarrow> string \<Rightarrow> go_error + string" where
  "read_from_uri resolve_path clean url =
     (let path_to_file = clean url
      in case map_of resolve_path path_to_file of
           None \<Rightarrow> Inl (GoError (''path not found: '' @ path_to_file))
         | Some get_spec \<Rightarrow> get_spec)"

definition get_swagger ::
  "((string \<Rightarrow> go_error + string) \<Rightarrow> string \<Rightarrow> go_error + 't) \<Rightarrow> (string \<Rightarrow> string) \<Rightarrow> raw_spec \<Rightarrow>
   go_error + 't" where
  "get_swagger load clean raw =
     (let resolve_path = path_to_raw_spec [] raw
      in case raw of
           Inl err \<Rightarrow> Inl err
         | Inr spec_data \<Rightarrow> load (read_from_uri resolve_path clean) spec_data)"

section \<open>An example server\<close>

text \<open>
  A server whose handlers report what they were called with, and middlewares that record
  their name on the way out: the responses of the examples show which handler ran, with
  which parameters, inside which middlewares.
\<close>

definition trace_server :: "string list server_interface" where
  "trace_server =
     \<lparr>CreateTask = (\<lambda>r p. [''create'', case Run p of None \<Rightarrow> [] | Some v \<Rightarrow> v]),
      DeleteTaskByName = (\<lambda>r n. [''delete'', n])\<rparr>"

definition trace_middleware :: "string \<Rightarrow> string list middleware_func" where
  "trace_middleware m h r = (case h r of Served t \<Rightarrow> Served (m # t) | e \<Rightarrow> e)"

section \<open>Lemmas on paths and patterns\<close>

lemma split_path_not_Nil [simp]: "split_path s \<noteq> []"
  by (induction s) (auto split: list.split)

lemma split_path_slash_append:
  "split_path (xs @ CHR ''/'' # ys) = split_path xs @ split_path ys"
proof (induction xs)
  case Nil
  then show ?case by simp
next
  case (Cons c cs)
  then show ?case by (cases "split_path cs") simp_all
qed

lemma split_path_no_slash: "CHR ''/'' \<notin> set s \<Longrightarrow> split_path s = [s]"
  by (induction s) auto

lemma split_path_segments: "w \<in> set (split_path s) \<Longrightarrow> set w \<subseteq> set s"
proof (induction s arbitrary: w)
  case Nil
  then show ?case by simp
next
  case (Cons c cs)
  then show ?case
    by (cases "split_path cs") (fastforce split: if_splits)+
qed

lemma no_param_segs:
  "CHR ''{'' \<notin> set s \<Longrightarrow> p \<in> set (split_path s) \<Longrightarrow> \<not> is_param_seg p"
  using split_path_segments [of p s] by (auto simp: is_param_seg_def neq_Nil_conv)

lemma match_pattern_literal_prefix:
  "\<forall>p \<in> set ps. \<not> is_param_seg p \<Longrightarrow> match_pattern (ps @ qs) (ps @ ss) = match_pattern qs ss"
  by (induction ps) auto

lemma split_tasks_path:
  "split_path (base @ ''/v1/tasks'') = split_path base @ [''v1'', ''tasks'']"
  using split_path_slash_append [of base "''v1/tasks''"] by simp

lemma split_task_name_path:
  "CHR ''/'' \<notin> set n \<Longrightarrow>
   split_path (base @ ''/v1/tasks/'' @ n) = split_path base @ [''v1'', ''tasks'', n]"
  using split_path_slash_append [of base "''v1/tasks/'' @ n"] by (simp add: split_path_no_slash)

lemma read_from_uri_Nil:
  "read_from_uri [] clean = (\<lambda>u. Inl (GoError (''path not found: '' @ clean u)))"
  by (simp add: fun_eq_iff read_from_uri_def)

lemma base_literal:
  "CHR ''{'' \<notin> set base \<Longrightarrow> \<forall>p \<in> set (split_path base). \<not> is_param_seg p"
  using no_param_segs by blast

lemma split_task_param_path:
  "split_path (base @ ''/v1/tasks/{name}'') = split_path base @ [''v1'', ''tasks'', ''{name}'']"
  using split_path_slash_append [of base "''v1/tasks/{name}''"] by simp

lemma route_tasks_match:
  assumes "CHR ''{'' \<notin> set base"
  shows "match_pattern (split_path (base @ ''/v1/tasks'')) (split_path (base @ ''/v1/tasks'')) = Some []"
    and "CHR ''/'' \<notin> set n \<Longrightarrow>
         match_pattern (split_path (base @ ''/v1/tasks'')) (split_path (base @ ''/v1/tasks/'' @ n)) = None"
    and "match_pattern (split_path (base @ ''/v1/tasks/{name}'')) (split_path (base @ ''/v1/tasks'')) = None"
    and "n \<noteq> [] \<Longrightarrow> CHR ''/'' \<notin> set n \<Longrightarrow>
         match_pattern (split_path (base @ ''/v1/tasks/{name}'')) (split_path (base @ ''/v1/tasks/'' @ n)) =
           Some [(''name'', n)]"
proof -
  note lit = match_pattern_literal_prefix [OF base_literal [OF assms]]
  show "match_pattern (split_path (base @ ''/v1/tasks'')) (split_path (base @ ''/v1/tasks'')) = Some []"
    unfolding split_tasks_path lit by (simp add: is_param_seg_def)
  show "match_pattern (split_path (base @ ''/v1/tasks/{name}'')) (split_path (base @ ''/v1/tasks'')) = None"
    unfolding split_tasks_path split_task_param_path lit by (simp add: is_param_seg_def)
  assume n: "CHR ''/'' \<notin> set n"
  show "match_pattern (split_path (base @ ''/v1/tasks'')) (split_path (base @ ''/v1/tasks/'' @ n)) = None"
    unfolding split_tasks_path split_task_name_path [OF n] lit by (simp add: is_param_seg_def)
  assume "n \<noteq> []"
  then show "match_pattern (split_path (base @ ''/v1/tasks/{name}'')) (split_path (base @ ''/v1/tasks/'' @ n)) =
           Some [(''name'', n)]"
    unfolding split_task_param_path split_task_name_path [OF n] lit
    by (simp add: is_param_seg_def param_name_def)
qed

text \<open>
  C38: a \<^verbatim>\<open>DELETE\<close> request on \<^verbatim>\<open><BaseURL>/v1/tasks/<n>\<close>, where \<open>n\<close> is a
  non-empty path segment, reaches \<^verbatim>\<open>DeleteTaskByName\<close> with the unescaped segment as
  the task name, inside the middleware chain, the last middleware of the options
  outermost; when the segment cannot be unescaped the answer is 400 and neither the
  middlewares nor the handler run.
\<close>

theorem api_delete_route:
  assumes "CHR ''{'' \<notin> set (BaseURL opts)" and "n \<noteq> []" and "CHR ''/'' \<notin> set n"
    and "req_method r = ''DELETE''" and "req_path r = BaseURL opts @ ''/v1/tasks/'' @ n"
  shows "handler_with_options unescape si opts r =
           (case unescape n of
              Inl err \<Rightarrow> http_error 400 (''Invalid format for parameter name: '' @ error_string err)
            | Inr name \<Rightarrow>
                chain_middlewares (Middlewares opts) (\<lambda>r'. Served (DeleteTaskByName si r' name))
                  (r\<lparr>req_url_params := [(''name'', n)]\<rparr>))"
proof -
  have m1: "match_pattern (split_path (BaseURL opts @ ''/v1/tasks'')) (split_path (req_path r)) = None"
    unfolding assms(5) by (rule route_tasks_match(2) [OF assms(1,3)])
  have m2: "match_pattern (split_path (BaseURL opts @ ''/v1/tasks/{name}'')) (split_path (req_path r)) =
              Some [(''name'', n)]"
    unfolding assms(5) by (rule route_tasks_match(4) [OF assms(1-3)])
  show ?thesis
    unfolding handler_with_options_def Let_def chi_route.simps m1 m2
    by (simp add: assms(2,4) siw_delete_task_by_name_def url_param_def bind_styled_parameter_def
          split: sum.split)
qed

theorem api_delete_route_witness:
  "CHR ''{'' \<notin> set [] \<and> ''db'' \<noteq> [] \<and> CHR ''/'' \<notin> set ''db'' \<and>
   handler_with_options Inr trace_server \<lparr>BaseURL = [], Middlewares = [trace_middleware ''auth'', trace_middleware ''log'']\<rparr>
     \<lparr>req_method = ''DELETE'', req_path = ''/v1/tasks/db'', req_query = [], req_url_params = []\<rparr> =
   Served [''log'', ''auth'', ''delete'', ''db'']"
  using api_delete_route
    [of "\<lparr>BaseURL = [], Middlewares = [trace_middleware ''auth'', trace_middleware ''log'']\<rparr>" "''db''"
        "\<lparr>req_method = ''DELETE'', req_path = ''/v1/tasks/db'', req_query = [], req_url_params = []\<rparr>"
        Inr trace_server]
  by (simp add: chain_middlewares_def trace_middleware_def trace_server_def)

text \<open>
  C39: a \<^verbatim>\<open>POST\<close> request on \<^verbatim>\<open><BaseURL>/v1/tasks\<close> reaches \<^verbatim>\<open>CreateTask\<close>
  inside the middleware chain with \<^verbatim>\<open>Run\<close> nil when the query has no \<^verbatim>\<open>run\<close>
  parameter and its value when it has one; a query that gives \<^verbatim>\<open>run\<close> more than once
  is answered 400 before any middleware runs, whatever the middlewares and the handler.
\<close>

theorem api_create_route:
  assumes "CHR ''{'' \<notin> set (BaseURL opts)"
    and "req_method r = ''POST''" and "req_path r = BaseURL opts @ ''/v1/tasks''"
  shows "handler_with_options unescape si opts r =
           (case query_values (req_query r) ''run'' of
              [] \<Rightarrow> chain_middlewares (Middlewares opts) (\<lambda>r'. Served (CreateTask si r' \<lparr>Run = None\<rparr>))
                      (r\<lparr>req_url_params := []\<rparr>)
            | [v] \<Rightarrow> chain_middlewares (Middlewares opts) (\<lambda>r'. Served (CreateTask si r' \<lparr>Run = Some v\<rparr>))
                      (r\<lparr>req_url_params := []\<rparr>)
            | _ \<Rightarrow> http_error 400
                    (''Invalid format for parameter run: multiple values for single value parameter ''
                     @ quote_str ''run''))"
proof -
  have m1: "match_pattern (split_path (BaseURL opts @ ''/v1/tasks'')) (split_path (req_path r)) = Some []"
    unfolding assms(3) by (rule route_tasks_match(1) [OF assms(1)])
  show ?thesis
    unfolding handler_with_options_def Let_def chi_route.simps m1
    by (simp add: assms(2) siw_create_task_def bind_query_parameter_def split: list.split)
qed

theorem api_create_route_witness:
  "CHR ''{'' \<notin> set [] \<and>
   handler_with_options Inr trace_server \<lparr>BaseURL = [], Middlewares = [trace_middleware ''auth'']\<rparr>
     \<lparr>req_method = ''POST'', req_path = ''/v1/tasks'', req_query = [(''run'', ''now'')], req_url_params = []\<rparr> =
   Served [''auth'', ''create'', ''now''] \<and>
   handler_with_options Inr trace_server \<lparr>BaseURL = [], Middlewares = [trace_middleware ''auth'']\<rparr>
     \<lparr>req_method = ''POST'', req_path = ''/v1/tasks'', req_query = [(''run'', ''now''), (''run'', ''inspect'')],
      req_url_params = []\<rparr> =
   http_error 400 (''Invalid format for parameter run: multiple values for single value parameter ''
                   @ quote_str ''run'')"
  using api_create_route
    [of "\<lparr>BaseURL = [], Middlewares = [trace_middleware ''auth'']\<rparr>"
        "\<lparr>req_method = ''POST'', req_path = ''/v1/tasks'', req_query = [(''run'', ''now'')], req_url_params = []\<rparr>"
        Inr trace_server]
    api_create_route
    [of "\<lparr>BaseURL = [], Middlewares = [trace_middleware ''auth'']\<rparr>"
        "\<lparr>req_method = ''POST'', req_path = ''/v1/tasks'', req_query = [(''run'', ''now''), (''run'', ''inspect'')],
          req_url_params = []\<rparr>"
        Inr trace_server]
  by (simp add: chain_middlewares_def trace_middleware_def trace_server_def query_values_def)

text \<open>
  C40: \<^verbatim>\<open>GetSwagger\<close> loads the embedded document with a resolver that answers every
  external reference with \<^verbatim>\<open>path not found\<close>, since it builds the resolver's table
  with \<^verbatim>\<open>PathToRawSpec("")\<close>, which is empty; a decoding error of the embedded
  document is returned as it is.
\<close>

theorem get_swagger_rejects_external_refs:
  "get_swagger load clean raw =
     (case raw of
        Inl err \<Rightarrow> Inl err
      | Inr spec_data \<Rightarrow> load (\<lambda>u. Inl (GoError (''path not found: '' @ clean u))) spec_data)"
  unfolding get_swagger_def path_to_raw_spec_def Let_def read_from_uri_Nil [symmetric] by simp

subsection \<open>The router's other answers\<close>

lemma api_method_not_allowed:
  assumes "CHR ''{'' \<notin> set (BaseURL opts)"
  shows "req_path r = BaseURL opts @ ''/v1/tasks'' \<Longrightarrow> req_method r \<noteq> ''POST'' \<Longrightarrow>
           handler_with_options unescape si opts r = HttpError 405 []"
    and "n \<noteq> [] \<Longrightarrow> CHR ''/'' \<notin> set n \<Longrightarrow> req_path r = BaseURL opts @ ''/v1/tasks/'' @ n \<Longrightarrow>
           req_method r \<noteq> ''DELETE'' \<Longrightarrow> handler_with_options unescape si opts r = HttpError 405 []"
proof -
  note m = route_tasks_match [OF assms]
  show "req_path r = BaseURL opts @ ''/v1/tasks'' \<Longrightarrow> req_method r \<noteq> ''POST'' \<Longrightarrow>
           handler_with_options unescape si opts r = HttpError 405 []"
    using m(1,3) by (simp add: handler_with_options_def Let_def)
  show "n \<noteq> [] \<Longrightarrow> CHR ''/'' \<notin> set n \<Longrightarrow> req_path r = BaseURL opts @ ''/v1/tasks/'' @ n \<Longrightarrow>
           req_method r \<noteq> ''DELETE'' \<Longrightarrow> handler_with_options unescape si opts r = HttpError 405 []"
  proof -
    assume n: "n \<noteq> []" "CHR ''/'' \<notin> set n" and p: "req_path r = BaseURL opts @ ''/v1/tasks/'' @ n"
      and "req_method r \<noteq> ''DELETE''"
    have "match_pattern (split_path (BaseURL opts @ ''/v1/tasks'')) (split_path (req_path r)) = None"
      unfolding p by (rule m(2) [OF n(2)])
    moreover have "match_pattern (split_path (BaseURL opts @ ''/v1/tasks/{name}'')) (split_path (req_path r)) =
                     Some [(''name'', n)]"
      unfolding p by (rule m(4) [OF n])
    ultimately show ?thesis
      using \<open>req_method r \<noteq> ''DELETE''\<close>
      unfolding handler_with_options_def Let_def chi_route.simps by simp
  qed
qed

text \<open>
  chi matches neither route for a trailing slash nor for a task name with a slash in it:
  \<^verbatim>\<open>Handler\<close> answers both with \<^verbatim>\<open>404 page not found\<close>.
\<close>

lemma handler_not_found_examples:
  "handler unescape si \<lparr>req_method = ''DELETE'', req_path = ''/v1/tasks/'', req_query = [], req_url_params = []\<rparr> =
     http_error 404 ''404 page not found''"
  "handler unescape si \<lparr>req_method = ''DELETE'', req_path = ''/v1/tasks/a/b'', req_query = [], req_url_params = []\<rparr> =
     http_error 404 ''404 page not found''"
  by (simp_all add: handler_def handler_with_options_def Let_def is_param_seg_def param_name_def)

lemma GoError_error_string [simp]: "GoError (error_string e) = e"
  by (cases e) simp

lemma match_pattern_nonempty:
  "match_pattern ps ss = Some b \<Longrightarrow> (k, v) \<in> set b \<Longrightarrow> v \<noteq> []"
  by (induction ps ss arbitrary: b rule: match_pattern.induct) (auto split: if_splits)

lemma match_pattern_binds:
  "match_pattern ps ss = Some b \<Longrightarrow> p \<in> set ps \<Longrightarrow> is_param_seg p \<Longrightarrow> param_name p \<in> fst ` set b"
  by (induction ps ss arbitrary: b rule: match_pattern.induct) (auto split: if_splits)

lemma url_param_bound:
  assumes "match_pattern (split_path (base @ ''/v1/tasks/{name}'')) ss = Some b"
  shows "url_param (r\<lparr>req_url_params := b\<rparr>) ''name'' \<noteq> []"
proof -
  have "''{name}'' \<in> set (split_path (base @ ''/v1/tasks/{name}''))"
    unfolding split_task_param_path by simp
  from match_pattern_binds [OF assms this] have "''name'' \<in> fst ` set b"
    by (simp add: is_param_seg_def param_name_def)
  then obtain v where "map_of b ''name'' = Some v"
    by (metis domIff dom_map_of_conv_image_fst not_None_eq)
  moreover have "v \<noteq> []"
    using calculation map_of_SomeD match_pattern_nonempty [OF assms] by fastforce
  ultimately show ?thesis by (simp add: url_param_def)
qed

text \<open>
  chi binds a pattern parameter only to a non-empty segment, so through the router the
  emptiness check of \<^verbatim>\<open>BindStyledParameter\<close> is never the reason for an answer: with
  no middleware, every 400 answer about the \<^verbatim>\<open>name\<close> parameter carries the error of
  unescaping a non-empty path segment.
\<close>

lemma handler_name_error_from_unescape:
  assumes "Middlewares opts = []"
    and "handler_with_options unescape si opts r =
           http_error 400 (''Invalid format for parameter name: '' @ m)"
  shows "\<exists>n. n \<noteq> [] \<and> unescape n = Inl (GoError m)"
proof -
  let ?w = "\<lparr>Handler = si, HandlerMiddlewares = Middlewares opts\<rparr>"
  have create: "siw_create_task ?w r' \<noteq> http_error 400 (''Invalid format for parameter name: '' @ m)" for r'
    using assms(1)
    by (auto simp: siw_create_task_def chain_middlewares_def http_error_def split: sum.split)
  show ?thesis
  proof (cases "match_pattern (split_path (BaseURL opts @ ''/v1/tasks/{name}'')) (split_path (req_path r))")
    case None
    then show ?thesis
      using assms(2) create
      by (auto simp: handler_with_options_def Let_def http_error_def split: option.splits if_splits)
  next
    case (Some b)
    let ?r = "r\<lparr>req_url_params := b\<rparr>"
    have ne: "url_param ?r ''name'' \<noteq> []" using url_param_bound [OF Some] .
    have "siw_delete_task_by_name unescape ?w ?r = http_error 400 (''Invalid format for parameter name: '' @ m) \<Longrightarrow>
          unescape (url_param ?r ''name'') = Inl (GoError m)"
      using assms(1) ne
      by (auto simp: siw_delete_task_by_name_def bind_styled_parameter_def chain_middlewares_def
            http_error_def split: sum.splits go_error.splits)
    then show ?thesis
      using assms(2) create Some ne
      by (auto simp: handler_with_options_def Let_def http_error_def split: option.splits if_splits)
  qed
qed

end
