(* ===== verification/EmbeddedSpec.thy ===== *)
theory EmbeddedSpec
  imports Api
begin

text \<open>
  The embedded OpenAPI document of \<^verbatim>\<open>src/api/oapigen/server.go\<close>:
  \<^verbatim>\<open>swaggerSpec\<close>, the base64 text of the gzipped JSON document, split into the
  generated string literals, and the first stage of \<^verbatim>\<open>decodeSpec\<close>,
  \<^verbatim>\<open>base64.StdEncoding.DecodeString\<close> (\<open>std_b64_decode\<close>): the standard alphabet,
  groups of four characters giving three bytes, \<^verbatim>\<open>=\<close> padding in the last group,
  carriage returns and line feeds skipped. Go reports the offset of the first bad byte
  in its error; the model reports the error without the offset. The gzip stage stays a
  parameter of \<open>decode_spec\<close>.
\<close>

definition swagger_spec :: "string list" where
  "swagger_spec =
    [''H4sIAAAAAAAC/9xY62/buhX/Vzh2H3o72/IzDwP90KYZbrC2N0hy7z7UhkGRRxYbidQlqThG4P3tAx+2'',
     ''LFuO0y3bHZYChSWdF8/5nRefMJV5IQUIo/H4CWuaQk7cz49lkoC6BsUls8+FkgUow8F9BUHiDNwHeCR5'',
     ''kQEeG1VCC5tlAXiMYykzIAKvWjgnjzU6PNJ4Q6eN4mLuyLiok/W7DXSrzRsZfwdqLOcFMSST81tQD5yC'',
     ''vpCCccOl2DebEUMoCAOqrorRXpNJguSgC0JhhxoSUmamkUMymOVgiOUgzNtBsuuaFXtcG9FP+B6WeIwf'',
     ''SFYCbjqrgjk8FnV7FhB33jVZU2qYET3LJSszmHFRlMZ5IdgfIrYRlJBMN0TQaf295MrG+9vagmlTIA57'',
     ''nvoYzXQIkn33ZwUJHuM3UQXCKCAwOhjTVQtTKXSZze4fjgpxhH/7rcZtP1p/HGO+DXR15hea32D3qtlh'',
     ''Owb+9yFbEJPWifNl28KwgVYBLZWGGogCao6h6D+ERmf99BnXfnHqrtba/j+d+1KnXCol1b4bctCazHdO'',
     ''ZVKuEdeICASWDa2pmmrytvY13UEDbkAXUviT7rSVtX3P5ZY/RFAK2sw4O8Zy4ymvPu0Z6zXWZE1XLfws'',
     ''an64/mxL+xeKSI29qYxUx6tFMI5PBpSddttnyXDUHibDfjvun8btmPbJSTI8H/TgBLdwIlVODB7jsuSs'',
     ''CZg3ZVNBT4mYg54VCjSIkMmaKl74Oob/noJJQSGpkJAGcZEooo0qqSkVoMCOFqAAMTBADTDESqsTGaLv'',
     ''ERe6AGqFdXBTOSkysjMw+MrSMaBN24roZJKSbJbwDDpzBWC4qBrQGN1AokCnVqE2xECn00HfOHvfZ6Pu'',
     ''8DwenrLeCTunQ9YbUTo6Px91E8YGDPrD+PT8tHcynYiXaDys6OR8MOzTER2cw4jAKOl2T08JUDro025y'',
     ''1jvr9ZL4rHc+mE7ERNyBUsSGCpUaGDIpIA2Zd1uh5ANnoDQyEs1BgCIGHEkis0wurGZ4BFpab06E9VwH'',
     ''3YCWpaKAiHOyRkQB4oJxSqzMBTfpjgi9zGOZ6fFEtKO/IAbaKLlERDhrBKIKrFoFRUYo5CBM3e4FzzJU'',
     ''gHIPdcnBhLFlQOgN+qFIorzUBsUbzczbp9bnm+CKe4LRBO9JmGD0ZBXbv38gKoUBYVDt7z2alN3ugPr/'',
     ''25e/3KE3KJHK6q+duGJpo58hy2QLkYL/afsDWn9YQPySD5e/3FXWcYb2/96jCX4pbCcYtd0pAL29F3Ih'',
     ''EEkMKESKIlv+VGl9g94OUCl8ojJEjFE8Lg1olHLGQATSlY3ZdUbEGPUs/AhjLdS1vzxny78OaOlMRFOF'',
     ''MQmdqVLMSpXtF5JL258LxTUgKbJlB/168xnJBFXIushkyZAqBTIpMYhKpVyLYS4hLNRcRVGlKyVVwUiN'',
     ''KfQ4ikhRdMxaWodL+yLKl22p5tFCqnvX87V9s9CRKoX7r01i+gn+Ov+Zf7/v9QfD0cuWlf2xcr+0KrlT'',
     ''2d4h/++LFEfbr+Nu6r0v2I/cgGN/cAO5rtnwza4ZuIVJwbekb4XQvyBKkeUft6gcPPSzDf2POXaTuXdE'',
     ''39eY3bRRhSusUe3tEWKtEnfeOaH17LGAXy/r3o3ey1atmkdBURRe+hnXTn9E31/gFt60Fjz+Nt0eXXYc'',
     ''80AUt1pclQ3ED6C0N6LX6Xa6rmnX/B67O4ZZsblkeG4aql1I+C2w8suRKaxa4GrO2Q6SHXP9gysWTSjd'',
     ''uvQ4hMyDdyByvXJWGhvdv38tspMTz510Z870oazN9ETff2jcU6owb4N/2qpS4ij0tzH57yfSGlBHp+Tf'',
     ''AuEXUji+Nei2z+3xd6xyOn9tYjU9kJ6fIAMDh3eY19hKtreRA2YE5mM6XEHZsLyqzS2syqPJZ3cHG91Q'',
     ''146b+mOe2A7+j9y47QiyWrlIZKi3hlCz7gsWkwVvGykzLuZtKhXs1RH84foKfZK0tCMgse/saIj8+tfe'',
     ''zCnt26WgLfcpl27Y9quXpdcA6JtnQF+vPqAP11fTt+v5ZLFYdPzSaYcTJqmOBCcRKfhPuIUzTiFENRj8'',
     ''5fpzu9/pos/hSwu7wWoz78y5Scu4Q2UepUSnnEpVRF5BezMHtfVS0CjOZBzlhIvo89XF5dfbS+c9blxa'',
     ''XdzdWkNxY6mXBQib7GM8CNlXEJO6cEQPvcgiwj0UUjdsjxdumdCIIAELV5Hd5GiD6hx2xTZEd75cF0SR'',
     ''HIxvVbviPnHbPOxUn0sG2sVAlUJwMe+g27IopDLaTZBCLtAi5TS1T7oaHnmeA+PEQLacCLvzWOKwowYG'',
     ''urGZqaUfRy2nm0m5XhPbWVowxLimRDG7rRDj1IBgdqy1P7d2X3dsbs/wewlqWXVom3ytcGPvr+TL3FUx'',
     ''uXAcTkJDqV1NN7cdHyVbriEfdni7BdgNkEsRfde+jlY6jqXvuiit9ueQO+cKGZyEt7PcNk2X9r48OVT0'',
     ''u71XtizUvkOmqQ1Bq+rur2RA/darwYJfBTwGbPgLKUuiyzwnatmYDLaXkbkbw3wiTS3HJq+iJwuSlU8r'',
     ''2672E8y3MStTczEPUw+KiQaGpHAotDLWdwtsL/m8AOu7j8uvvnM+m4KWxuE7ACEYFsDtriw32A6duA6R'',
     ''GtiPjTQe5TVADV8VUDtjwCFY+VOy/0VUVQjwoV+i4PY9ZIXhrjmudyk0dzp063g23eepUNJIKrPVOIqe'',
     ''UqnNavxkC+8K74x76aYlBI/5Gxz32g6rUu18PhuNzsIY6zTUv9q259YgXyDDo2uG7nTT1T8DAAD//7l6'',
     ''GVIIHQAA'']"

definition b64_val :: "char \<Rightarrow> nat option" where
  "b64_val c =
     (let n = of_char c :: nat in
      if 65 \<le> n \<and> n \<le> 90 then Some (n - 65)
      else if 97 \<le> n \<and> n \<le> 122 then Some (n - 71)
      else if 48 \<le> n \<and> n \<le> 57 then Some (n + 4)
      else if n = 43 then Some 62
      else if n = 47 then Some 63
      else None)"

text \<open>\<^verbatim>\<open>dst[0], dst[1], dst[2] = byte(val>>16), byte(val>>8), byte(val)\<close>.\<close>

definition b64_bytes :: "nat \<Rightarrow> nat \<Rightarrow> nat \<Rightarrow> nat \<Rightarrow> string" where
  "b64_bytes a b c d =
     (let v = a * 262144 + b * 4096 + c * 64 + d
      in [char_of (v div 65536), char_of (v div 256), char_of v])"

fun b64_dec :: "char list \<Rightarrow> string option" where
  "b64_dec [] = Some []"
| "b64_dec (a # b # c # d # rest) =
     (case (b64_val a, b64_val b) of
        (Some x, Some y) \<Rightarrow>
          (if rest = [] \<and> c = CHR ''='' \<and> d = CHR ''='' then Some (take 1 (b64_bytes x y 0 0))
           else if rest = [] \<and> d = CHR ''='' then map_option (\<lambda>z. take 2 (b64_bytes x y z 0)) (b64_val c)
           else (case (b64_val c, b64_val d) of
                   (Some z, Some w) \<Rightarrow> map_option (\<lambda>r. b64_bytes x y z w @ r) (b64_dec rest)
                 | _ \<Rightarrow> None))
      | _ \<Rightarrow> None)"
| "b64_dec _ = None"

definition std_b64_decode :: "string \<Rightarrow> go_error + string" where
  "std_b64_decode s =
     (case b64_dec (filter (\<lambda>c. c \<noteq> CHR 0x0A \<and> c \<noteq> CHR 0x0D) s) of
        None \<Rightarrow> Inl (GoError ''illegal base64 data'')
      | Some z \<Rightarrow> Inr z)"

subsection \<open>Lemmas on the decoder\<close>

definition b64_valid :: "string \<Rightarrow> bool" where
  "b64_valid s \<longleftrightarrow> list_all (\<lambda>c. b64_val c \<noteq> None) s"

lemma b64_val_eq: "b64_val CHR ''='' = None"
  by (simp add: b64_val_def)

lemma b64_valid_simps [simp]:
  "b64_valid []" "b64_valid (c # s) \<longleftrightarrow> b64_val c \<noteq> None \<and> b64_valid s"
  "b64_valid (s @ t) \<longleftrightarrow> b64_valid s \<and> b64_valid t"
  by (simp_all add: b64_valid_def)

lemma b64_dec_quad:
  "b64_val a = Some x \<Longrightarrow> b64_val b = Some y \<Longrightarrow> b64_val c = Some z \<Longrightarrow> b64_val d = Some w \<Longrightarrow>
   b64_dec (a # b # c # d # rest) = map_option (\<lambda>r. b64_bytes x y z w @ r) (b64_dec rest)"
  using b64_val_eq by (cases "d = CHR ''=''") auto

lemma b64_quanta:
  fixes s :: string
  assumes "length s mod 4 = 0" and "s \<noteq> []"
  obtains a b c d rest where "s = a # b # c # d # rest" and "length rest mod 4 = 0"
  using assms by (cases s rule: b64_dec.cases) auto

lemma length_b64_bytes [simp]: "length (b64_bytes a b c d) = 3"
  by (simp add: b64_bytes_def Let_def)

lemma quanta_div: "length (a # b # c # d # rest) div 4 = Suc (length rest div 4)"
  by simp

lemma b64_dec_valid:
  "b64_valid s \<Longrightarrow> length s mod 4 = 0 \<Longrightarrow>
   \<exists>z. b64_dec s = Some z \<and> length z = 3 * (length s div 4)"
proof (induction "length s div 4" arbitrary: s)
  case 0
  then show ?case by auto
next
  case (Suc n)
  then have ne: "s \<noteq> []" by auto
  obtain a b c d rest where s: "s = a # b # c # d # rest" and r: "length rest mod 4 = 0"
    using Suc.prems(2) ne by (rule b64_quanta)
  from Suc.prems s obtain x y z w where v: "b64_val a = Some x" "b64_val b = Some y" "b64_val c = Some z"
      "b64_val d = Some w" and vr: "b64_valid rest"
    by auto
  from Suc.hyps(2) have "n = length rest div 4" unfolding s quanta_div by simp
  from Suc.hyps(1) [OF this vr r] obtain zr where zr: "b64_dec rest = Some zr" "length zr = 3 * (length rest div 4)"
    by blast
  have q: "b64_dec s = map_option (\<lambda>r. b64_bytes x y z w @ r) (b64_dec rest)"
    unfolding s by (rule b64_dec_quad [OF v])
  show ?case
    unfolding q unfolding s quanta_div using zr by simp
qed

lemma b64_dec_append:
  "b64_valid s \<Longrightarrow> length s mod 4 = 0 \<Longrightarrow>
   b64_dec (s @ t) = (case b64_dec s of None \<Rightarrow> None | Some a \<Rightarrow> map_option (\<lambda>b. a @ b) (b64_dec t))"
proof (induction "length s div 4" arbitrary: s)
  case 0
  then have "s = []" by auto
  then show ?case by (cases "b64_dec t") simp_all
next
  case (Suc n)
  then have ne: "s \<noteq> []" by auto
  obtain a b c d rest where s: "s = a # b # c # d # rest" and r: "length rest mod 4 = 0"
    using Suc.prems(2) ne by (rule b64_quanta)
  from Suc.prems s obtain x y z w where v: "b64_val a = Some x" "b64_val b = Some y" "b64_val c = Some z"
      "b64_val d = Some w" and vr: "b64_valid rest"
    by auto
  from Suc.hyps(2) have "n = length rest div 4" unfolding s quanta_div by simp
  note ih = Suc.hyps(1) [OF this vr r]
  have q1: "b64_dec (s @ t) = map_option (\<lambda>r. b64_bytes x y z w @ r) (b64_dec (rest @ t))"
    unfolding s append_Cons by (rule b64_dec_quad [OF v])
  have q2: "b64_dec s = map_option (\<lambda>r. b64_bytes x y z w @ r) (b64_dec rest)"
    unfolding s by (rule b64_dec_quad [OF v])
  show ?case
    unfolding q1 q2 ih by (cases "b64_dec rest"; cases "b64_dec t") simp_all
qed

lemma b64_valid_no_newlines:
  "b64_valid s \<Longrightarrow> filter (\<lambda>c. c \<noteq> CHR 0x0A \<and> c \<noteq> CHR 0x0D) s = s"
  by (induction s) (auto simp: b64_val_def)

lemma swagger_spec_valid: "b64_valid (concat swagger_spec)"
  by (simp add: swagger_spec_def b64_valid_def b64_val_def)

lemma swagger_spec_length: "length (concat swagger_spec) = 2808"
  by (simp add: swagger_spec_def)

lemma swagger_spec_split: "concat swagger_spec = ''H4sIAAAAAAAC/9xY'' @ drop 16 (concat swagger_spec)"
proof -
  have "take 16 (concat swagger_spec) = ''H4sIAAAAAAAC/9xY''" by (simp add: swagger_spec_def)
  then show ?thesis by (metis append_take_drop_id)
qed

lemma swagger_spec_header:
  "map_option (map (of_char :: char \<Rightarrow> nat)) (b64_dec ''H4sIAAAAAAAC/9xY'') =
     Some [31, 139, 8, 0, 0, 0, 0, 0, 2, 255, 220, 88]"
  by (simp add: b64_val_def b64_bytes_def)

text \<open>
  C12: the embedded document is valid standard base64, so \<^verbatim>\<open>decodeSpec\<close> never returns
  \<^verbatim>\<open>error base64 decoding spec\<close>: the text decodes to 2106 bytes that start with a gzip
  header (magic bytes 31 and 139, method 8 deflate, no flags, no time stamp, extra flags 2,
  operating system 255), and \<^verbatim>\<open>decodeSpec\<close>'s result is what the gzip stage makes of
  these bytes, whatever that stage is.
\<close>

theorem swagger_spec_decodes:
  "\<exists>z. std_b64_decode (concat swagger_spec) = Inr z \<and> length z = 2106 \<and>
       map (of_char :: char \<Rightarrow> nat) (take 10 z) = [31, 139, 8, 0, 0, 0, 0, 0, 2, 255] \<and>
       (\<forall>gzip_open read_all.
          decode_spec std_b64_decode gzip_open read_all swagger_spec =
            (case gzip_open z of
               Inl err \<Rightarrow> Inl (GoError (''error decompressing spec: '' @ error_string err))
             | Inr zr \<Rightarrow>
                 (case read_all zr of
                    Inl err \<Rightarrow> Inl (GoError (''error decompressing spec: '' @ error_string err))
                  | Inr buf \<Rightarrow> Inr buf)))"
proof -
  let ?h = "''H4sIAAAAAAAC/9xY''"
  let ?t = "drop 16 (concat swagger_spec)"
  have v: "b64_valid ?h" "b64_valid ?t"
    using swagger_spec_valid swagger_spec_split by (metis b64_valid_simps(3))+
  obtain zh where zh: "b64_dec ?h = Some zh" and hdr: "map (of_char :: char \<Rightarrow> nat) zh = [31, 139, 8, 0, 0, 0, 0, 0, 2, 255, 220, 88]"
    using swagger_spec_header by (cases "b64_dec ?h") auto
  have m: "length ?t mod 4 = 0" using swagger_spec_length by simp
  from b64_dec_valid [OF v(2) m] obtain zt where zt: "b64_dec ?t = Some zt" "length zt = 3 * (length ?t div 4)"
    by blast
  have l16: "length ?h mod 4 = 0" by simp
  have "b64_dec (concat swagger_spec) = b64_dec (?h @ ?t)"
    using swagger_spec_split by (rule arg_cong)
  also have "\<dots> = Some (zh @ zt)"
    unfolding b64_dec_append [OF v(1) l16] zh zt(1) by simp
  finally have "b64_dec (concat swagger_spec) = Some (zh @ zt)" .
  then have dec: "std_b64_decode (concat swagger_spec) = Inr (zh @ zt)"
    using b64_valid_no_newlines [OF swagger_spec_valid] by (simp add: std_b64_decode_def)
  have lh: "length zh = 12" using arg_cong [OF hdr, of length] by simp
  have "length (zh @ zt) = 2106" using lh zt(2) swagger_spec_length by simp
  moreover have "map (of_char :: char \<Rightarrow> nat) (take 10 (zh @ zt)) = [31, 139, 8, 0, 0, 0, 0, 0, 2, 255]"
    using lh arg_cong [OF hdr, of "take 10"] by (simp add: take_map [symmetric])
  ultimately show ?thesis
    using dec by (intro exI [of _ "zh @ zt"]) (simp add: decode_spec_def)
qed

end
