(* ===== verification/Spec2Isabelle.thy ===== *)
theory Spec2Isabelle
  imports MonitorConfigPrint WriterRuns EmbeddedSpec
begin

text \<open>
  A verification library for consul-terraform-sync's configuration model and root-module
  generator (the sources under \<^verbatim>\<open>src/\<close>).

  \<^bold>\<open>The program.\<close> An external scheduler resolves a task's operator configuration into a
  watch-source configuration (\<^verbatim>\<open>src/config/monitor_consul_kv.go\<close>: copy, merge with
  precedence, fill defaults, validate), then builds the task's \<^verbatim>\<open>RootModuleInputData\<close>,
  normalises it (\<^verbatim>\<open>Init\<close>) and calls \<^verbatim>\<open>InitRootModule\<close>
  (\<^verbatim>\<open>src/templates/tftmpl/root.go\<close>), which writes up to four files of a Terraform root
  module into the task's directory, skipping existing files unless forced; the
  \<^verbatim>\<open>main.tf\<close> file is built by \<^verbatim>\<open>NewMainTF\<close> as an HCL syntax tree. The
  generated HTTP routing layer (\<^verbatim>\<open>src/api/oapigen/server.go\<close>) and the end-to-end test
  harness (\<^verbatim>\<open>src/e2e/\<close>) are callers of the core.

  \<^bold>\<open>Library layout.\<close>
  \<^item> \<open>Prelude\<close>: the Go conventions. Errors are \<open>go_error\<close>; a Go map is an
    association list \<open>'v go_map\<close> whose keys are distinct (\<open>go_map_ok\<close>), and since Go
    iterates maps in an unspecified order every property that involves iteration is
    stated for every order (every permutation of the list); a nil pointer is
    \<open>None\<close>; \<^verbatim>\<open>sort.Slice\<close> and \<^verbatim>\<open>sort.Strings\<close> are the stable \<open>sort_key\<close> and
    \<open>sort\<close> (Go's sort is not stable, but on keys that are distinct, which every property
    that depends on the order assumes, any sort gives the same result:
    \<open>sort_contract_unique\<close>). The two pointer idioms of the configuration code
    (\<open>override_if_set\<close>, \<open>default_if_nil\<close>) and the shared lemmas on sorting and
    association lists.
  \<^item> \<open>MonitorConfig\<close>: \<^verbatim>\<open>ConsulKVMonitorConfig\<close> as a record of optional fields
    and its methods \<^verbatim>\<open>Copy\<close> (\<open>kv_copy\<close>), \<^verbatim>\<open>Merge\<close> (\<open>kv_merge\<close>),
    \<^verbatim>\<open>Finalize\<close> (\<open>kv_finalize\<close>), \<^verbatim>\<open>Validate\<close> (\<open>kv_validate\<close>). The
    \<^verbatim>\<open>MonitorConfig\<close> interface value is \<open>'o monitor_iface\<close>, where \<open>'o\<close> is the
    type of the other watch-source kinds, so every lemma holds whatever those kinds are.
    Lemmas C1 to C5 and C7 to C9: field-wise precedence of a merge and of a chain of
    merges, merge with an absent or a foreign configuration, defaults, validation after
    finalisation, and that merging commutes with finalisation only one way.
  \<^item> \<open>MonitorConfigPrint\<close>: \<^verbatim>\<open>GoString\<close> (\<open>kv_go_string\<close>); a log line does not
    show whether a configuration was finalised (\<open>kv_go_string_finalize\<close>). Lemma C6:
    when no string field holds a comma, two log lines are equal exactly when the
    finalised configurations are, so the printed form identifies a configuration up to
    its defaults and no further.
  \<^item> \<open>RootModule\<close>: the input record \<^verbatim>\<open>RootModuleInputData\<close>, \<^verbatim>\<open>Init\<close>
    (\<open>init_input\<close>), \<^verbatim>\<open>TemplateServiceID\<close>, \<^verbatim>\<open>sortedKeys\<close>,
    \<^verbatim>\<open>Variables.Keys\<close> and the HCL value type \<open>raw_value\<close>. Lemmas C10 and C13
    to C19: sortedness and permutation, idempotence only when a backend is given,
    determinism against the order of construction, the service identifier's round trip
    and its collision, the refinement of \<^verbatim>\<open>sortedKeys\<close>.
  \<^item> \<open>MainTF\<close>: \<^verbatim>\<open>NewMainTF\<close> and its helpers over a syntax tree of hclwrite
    bodies (\<open>hcl_item\<close>), where \<^verbatim>\<open>SetAttributeValue\<close> replaces an attribute of
    the same name (\<open>body_set_attr\<close>), and \<open>attr_of\<close> reads a body's
    attributes as a map. Lemma C11: for every input the module block's attributes are,
    as a map, the user variables over \<^verbatim>\<open>services\<close>, \<^verbatim>\<open>version\<close> and
    \<^verbatim>\<open>source\<close>. Lemmas C20 to C24: the layout of the provider blocks, the alias rule, the terraform
    block, the module block.
  \<^item> \<open>InitRootModule\<close>: \<^verbatim>\<open>InitRootModule\<close> and \<^verbatim>\<open>fileFuncs\<close> over a model of
    the task directory (\<open>task_dir\<close>, a map from file name to content, mode and
    sync flag) and of the system calls \<^verbatim>\<open>os.Stat\<close>, \<^verbatim>\<open>os.Create\<close>,
    \<^verbatim>\<open>Chmod\<close>, \<^verbatim>\<open>Write\<close>, \<^verbatim>\<open>Sync\<close>, each of which may fail as an injected
    fault of \<open>io_env\<close>. A failed \<^verbatim>\<open>Write\<close> may be short
    (\<open>write_torn\<close>): it leaves a non-empty proper prefix of its chunk in the file
    (\<open>Torn\<close>), as \<^verbatim>\<open>os.File.Write\<close> may. A file's content is the list of chunks written to it: raw bytes,
    the \<^verbatim>\<open>main.tf\<close> syntax tree, or the output of a renderer that lives outside
    \<^verbatim>\<open>src/\<close> (\<open>Rendered\<close>). Lemmas C25 and C27 to C35: the refinement of a
    fault-free pass, in any iteration order, into the per-file specification
    \<open>synthesize_spec\<close>, idempotent skip, forced restore, the conditional
    module-variables file, error propagation, and the faults the code ignores or cannot
    recover from.
  \<^item> \<open>WriterRuns\<close>: the task directory over the life of a task. The inductive
    \<open>writer_reachable\<close> holds the directories that any sequence of runs (any input,
    permissions, force flag, iteration order and faults) produces from one without the
    four files; it models the caller that re-runs \<^verbatim>\<open>InitRootModule\<close> on every task
    update, which is outside \<^verbatim>\<open>src/\<close>. Lemma C26, by rule induction, short
    writes included: every managed file holds nothing, the preamble, its own body, or the
    preamble then its body, where a preamble may be torn and a body may be torn only in a
    file left unsynced (\<open>dir_wf\<close>); so a file that was synced ends in its whole
    body.
  \<^item> \<open>Api\<close>: the generated HTTP layer of \<^verbatim>\<open>src/api/oapigen/server.go\<close>. A
    handler maps a \<open>request\<close> to an \<open>'r http_result\<close>, a middleware maps a handler to a
    handler; \<^verbatim>\<open>ServerInterfaceWrapper.CreateTask\<close> and
    \<^verbatim>\<open>DeleteTaskByName\<close> are \<open>siw_create_task\<close> and
    \<open>siw_delete_task_by_name\<close>, \<^verbatim>\<open>HandlerWithOptions\<close> is
    \<open>handler_with_options\<close> over a model of chi's routing (\<open>chi_route\<close>),
    \<^verbatim>\<open>PathToRawSpec\<close> and \<^verbatim>\<open>GetSwagger\<close> are \<open>path_to_raw_spec\<close> and
    \<open>get_swagger\<close>, \<^verbatim>\<open>Handler\<close> is \<open>handler\<close>. The library calls that cannot be
    pinned down (path unescaping, \<^verbatim>\<open>path.Clean\<close>, gzip, the OpenAPI loader) are
    parameters. Lemmas C38 to C40: what each route delivers to its handler and inside
    which middlewares, the parameter errors answered before any middleware, the resolver
    of \<^verbatim>\<open>GetSwagger\<close>; and the router's 405 and 404 answers, and that behind
    the router the emptiness check of \<^verbatim>\<open>BindStyledParameter\<close> never fires
    (\<open>handler_name_error_from_unescape\<close>).
  \<^item> \<open>EmbeddedSpec\<close>: \<^verbatim>\<open>swaggerSpec\<close> as its 36 generated string literals and
    \<^verbatim>\<open>base64.StdEncoding.DecodeString\<close> (\<open>std_b64_decode\<close>). Lemma C12: the embedded
    text decodes, to 2106 bytes with a gzip header, so the first error path of
    \<^verbatim>\<open>decodeSpec\<close> is never taken. The proof evaluates only a per-character
    validity check on the 2808 characters; the decoding itself follows from lemmas on the
    decoder (\<open>b64_dec_valid\<close>, \<open>b64_dec_append\<close>).
  \<^item> This theory: properties across components, over the top-level blocks of a body
    (\<open>blocks_of\<close>). C36: \<^verbatim>\<open>main.tf\<close> does not depend on the order in
    which the input was built. C37: for every input, a fault-free \<^verbatim>\<open>Init\<close> then
    \<^verbatim>\<open>InitRootModule\<close> writes a synced \<^verbatim>\<open>main.tf\<close> of the preamble and
    a body whose provider blocks are the input's providers sorted by name, whose one
    module block is the task's, and which passes every user variable to the module.

  \<^bold>\<open>Bounds and faults.\<close> There is no fuel: every loop of the modelled code is a
  structural recursion over a list, and the base64 decoder recurses on the list after
  its first four characters, so every definition is total. Faults are predicates on
  the file name (and, for writes, on the index of the write in the file), which covers
  every failure point of the code; \<open>fault_free\<close> is the environment with none.

  \<^bold>\<open>Findings.\<close> Calling \<^verbatim>\<open>Init\<close> twice without a backend adds an empty backend
  (C14); the order of services with the same name survives \<^verbatim>\<open>Init\<close> (C16); two
  services can share a template identifier (C18); a variable named \<^verbatim>\<open>source\<close>
  replaces the module's source (C24); a failed preamble write or sync is ignored (C31,
  C32), and a short write of the preamble leaves a torn comment line before the body of
  a synced file (C26); a failed \<^verbatim>\<open>os.Stat\<close> is taken for an existing file (C33); a failed
  \<^verbatim>\<open>Chmod\<close> leaves an empty file that later passes skip (C34); which file is left
  behind after a fault depends on the map's iteration order (C35); the last middleware of the options runs
  outermost (C38); \<^verbatim>\<open>GetSwagger\<close> resolves no external reference, although its comment
  says it does (C40); the empty-name error of \<^verbatim>\<open>DeleteTaskByName\<close> is dead code behind
  chi, which answers a trailing slash with 404; a log line of a watch-source
  configuration cannot tell an unset field from its default (C6).

  \<^bold>\<open>Not modelled.\<close> \<^verbatim>\<open>HandlerFromMux\<close> and \<^verbatim>\<open>HandlerFromMuxWithBaseURL\<close>
  (\<^verbatim>\<open>HandlerWithOptions\<close> with a router of the caller's, whose other routes chi
  merges with these by its own priorities); the gzip stream and the JSON document inside
  \<^verbatim>\<open>swaggerSpec\<close> (the gzip stage of \<^verbatim>\<open>decodeSpec\<close> is a parameter);
  the end-to-end tests under \<^verbatim>\<open>src/e2e/\<close> (a harness that runs binaries); the
  renderers of \<^verbatim>\<open>variables.tf\<close> and \<^verbatim>\<open>terraform.tfvars.tmpl\<close> and hclwrite's
  formatting, which are outside \<^verbatim>\<open>src/\<close>; logging.

  \<^bold>\<open>Plan.\<close> Every file of \<^verbatim>\<open>src/\<close> with program logic has a model. Next:
  a model of gzip's header check, so that the second error path of \<^verbatim>\<open>decodeSpec\<close>
  is settled as the first is; recovery of the task directory from any reachable state;
  stronger forms of the existing properties, in place of the weaker ones.
\<close>

text \<open>The blocks of one type at the top of a body, with their labels and bodies.\<close>

fun blocks_of :: "string \<Rightarrow> hcl_item list \<Rightarrow> (string list \<times> hcl_item list) list" where
  "blocks_of t [] = []"
| "blocks_of t (HBlock t' ls c # r) = (if t' = t then (ls, c) # blocks_of t r else blocks_of t r)"
| "blocks_of t (_ # r) = blocks_of t r"

lemma blocks_of_append [simp]: "blocks_of t (xs @ ys) = blocks_of t xs @ blocks_of t ys"
  by (induction t xs rule: blocks_of.induct) auto

lemma blocks_of_terraform_block:
  "t \<noteq> ''terraform'' \<Longrightarrow> blocks_of t (append_root_terraform_block [] bk pi) = []"
  by (simp add: append_root_terraform_block_def Let_def)

lemma blocks_of_provider_blocks:
  "map fst (blocks_of ''provider'' (append_root_provider_blocks body ps)) =
   map fst (blocks_of ''provider'' body) @ map (\<lambda>p. [nb_name p]) ps"
proof -
  have "map fst (blocks_of ''provider''
          (concat (map (\<lambda>i. provider_block (ps ! i) # (if i \<noteq> length ps - 1 then [HNewline] else [])) is))) =
        map (\<lambda>i. [nb_name (ps ! i)]) is" for "is"
    by (induction "is") (simp_all add: provider_block_def)
  moreover have "map (\<lambda>i. [nb_name (ps ! i)]) [0..<length ps] = map (\<lambda>p. [nb_name p]) ps"
    by (rule nth_equalityI) simp_all
  ultimately show ?thesis
    by (simp add: append_root_provider_blocks_def)
qed

lemma module_block_of:
  "\<exists>mb. blocks_of ''module'' (append_root_module_block body t vs) = blocks_of ''module'' body @ [([task_name t], mb)] \<and>
        (\<forall>v \<in> set vs. attr_of mb v = Some (HTraversal [''var'', v]))"
  by (simp add: append_root_module_block_def append_comment_def Let_def attr_of_foldl_vars)

lemma blocks_of_other [simp]:
  "t \<noteq> ''provider'' \<Longrightarrow> blocks_of t (append_root_provider_blocks body ps) = blocks_of t body"
  "t \<noteq> ''module'' \<Longrightarrow> blocks_of t (append_root_module_block body task vs) = blocks_of t body"
proof -
  have "t \<noteq> ''provider'' \<Longrightarrow> blocks_of t
          (concat (map (\<lambda>i. provider_block (ps ! i) # (if i \<noteq> length ps - 1 then [HNewline] else [])) is)) = []"
    for "is" by (induction "is") (simp_all add: provider_block_def)
  then show "t \<noteq> ''provider'' \<Longrightarrow> blocks_of t (append_root_provider_blocks body ps) = blocks_of t body"
    by (simp add: append_root_provider_blocks_def)
  show "t \<noteq> ''module'' \<Longrightarrow> blocks_of t (append_root_module_block body task vs) = blocks_of t body"
    by (simp add: append_root_module_block_def append_comment_def Let_def)
qed

lemma sort_key_names: "map f (sort_key f xs) = sort (map f xs)"
  by (rule properties_for_sort [symmetric]) simp_all

text \<open>
  C36: \<^verbatim>\<open>main.tf\<close> is determined by the content of the input, not by the order in
  which it was built: the providers in any order (with distinct names), the provider
  information and the variables in any map order give the same syntax tree.
\<close>

theorem main_tf_deterministic:
  assumes "mset (Providers d1) = mset (Providers d2)"
    and "inj_on nb_name (new_named_block ` set (Providers d1))"
    and "go_map_ok (ProviderInfo d1)" and "go_map_ok (ProviderInfo d2)"
    and "map_of (ProviderInfo d1) = map_of (ProviderInfo d2)"
    and "go_map_ok (Variables d1)" and "go_map_ok (Variables d2)"
    and "map_of (Variables d1) = map_of (Variables d2)"
    and "Backend d1 = Backend d2" and "backend d1 = backend d2" and "Task d1 = Task d2"
  shows "main_tf_body (init_input d1) = main_tf_body (init_input d2)"
proof -
  have "sort_key nb_name (map new_named_block (Providers d1)) =
        sort_key nb_name (map new_named_block (Providers d2))"
    by (rule sort_key_mset_eq) (simp_all add: assms(1,2))
  then have p: "providers (init_input d1) = providers (init_input d2)"
    by (simp add: init_input_fields)
  have v: "variables_keys (Variables d1) = variables_keys (Variables d2)"
    unfolding variables_keys_def by (rule sort_distinct_keys_eq [OF assms(6-8)])
  have b: "backend (init_input d1) = backend (init_input d2)"
    using assms(9,10) by (cases "Backend d2") (simp_all add: init_input_fields)
  have t: "append_root_terraform_block [] (backend (init_input d2)) (ProviderInfo d1) =
           append_root_terraform_block [] (backend (init_input d2)) (ProviderInfo d2)"
    by (rule terraform_block_map_of_eq [OF assms(3-5)])
  have "ProviderInfo (init_input d1) = ProviderInfo d1" "ProviderInfo (init_input d2) = ProviderInfo d2"
       "Variables (init_input d1) = Variables d1" "Variables (init_input d2) = Variables d2"
       "Task (init_input d1) = Task d1" "Task (init_input d2) = Task d2"
    by (simp_all add: init_input_fields)
  then show ?thesis using p v b t assms(11) by (simp add: main_tf_body_def)
qed

theorem main_tf_deterministic_witness:
  "mset (Providers ((db_task_input [])\<lparr>Providers := [[(''local'', RMap [])], [(''aws'', RMap [(''region'', RStr ''eu'')])]],
                                       Variables := [(''a'', RStr ''x''), (''b'', RStr ''y'')]\<rparr>)) =
     mset (Providers ((db_task_input [])\<lparr>Providers := [[(''aws'', RMap [(''region'', RStr ''eu'')])], [(''local'', RMap [])]],
                                       Variables := [(''b'', RStr ''y''), (''a'', RStr ''x'')]\<rparr>)) \<and>
   main_tf_body (init_input ((db_task_input [])\<lparr>Providers := [[(''local'', RMap [])], [(''aws'', RMap [(''region'', RStr ''eu'')])]],
                                       Variables := [(''a'', RStr ''x''), (''b'', RStr ''y'')]\<rparr>)) =
     main_tf_body (init_input ((db_task_input [])\<lparr>Providers := [[(''aws'', RMap [(''region'', RStr ''eu'')])], [(''local'', RMap [])]],
                                       Variables := [(''b'', RStr ''y''), (''a'', RStr ''x'')]\<rparr>))"
    using main_tf_deterministic
      [of "(db_task_input [])\<lparr>Providers := [[(''local'', RMap [])], [(''aws'', RMap [(''region'', RStr ''eu'')])]],
                                       Variables := [(''a'', RStr ''x''), (''b'', RStr ''y'')]\<rparr>"
          "(db_task_input [])\<lparr>Providers := [[(''aws'', RMap [(''region'', RStr ''eu'')])], [(''local'', RMap [])]],
                                       Variables := [(''b'', RStr ''y''), (''a'', RStr ''x'')]\<rparr>"]
    by (simp add: fun_eq_iff db_task_input_def new_named_block_def go_map_ok_def)

text \<open>
  C37: the components together, for every input: after \<^verbatim>\<open>Init\<close>, a fault-free
  \<^verbatim>\<open>InitRootModule\<close> that creates \<^verbatim>\<open>main.tf\<close> (or overwrites it, forced) writes the
  preamble and then a syntax tree that declares one provider block per configured
  provider, labelled with its name, in sorted order; one module block, labelled with the
  task's name; and passes every user variable to that module as \<^verbatim>\<open>var.<name>\<close>. The
  file is synced and has the requested permissions.
\<close>

theorem written_main_tf_composition:
  assumes "dir root_filename = None \<or> force"
  shows "\<exists>b. snd (init_root_module fault_free (init_input d) perms force dir root_file_funcs) root_filename =
              Some \<lparr>f_content = [Bytes root_preamble, HclBody b], f_mode = perms, f_synced = True\<rparr> \<and>
            map fst (blocks_of ''provider'' b) = map (\<lambda>n. [n]) (sort (map (\<lambda>p. nb_name (new_named_block p)) (Providers d))) \<and>
            map fst (blocks_of ''module'' b) = [[task_name (Task d)]] \<and>
            (\<forall>v \<in> fst ` set (Variables d).
               attr_of (snd (hd (blocks_of ''module'' b))) v = Some (HTraversal [''var'', v]))"
proof -
  let ?i = "init_input d"
  let ?X = "append_root_provider_blocks (append_root_terraform_block [] (backend ?i) (ProviderInfo ?i) @ [HNewline])
              (providers ?i) @ [HNewline]"
  let ?b = "main_tf_body ?i"
  have w: "snd (init_root_module fault_free ?i perms force dir root_file_funcs) root_filename =
           Some \<lparr>f_content = [Bytes root_preamble, HclBody ?b], f_mode = perms, f_synced = True\<rparr>"
  proof -
    have r: "snd (init_root_module fault_free ?i perms force dir root_file_funcs) = synthesize_spec ?i perms force dir"
      by (simp add: init_root_module_perm)
    show ?thesis
      unfolding r using assms
      by (cases "dir root_filename")
         (simp_all add: synthesize_spec_def root_file_funcs_def spec_file_def canonical_file_def
            root_filename_def vars_filename_def module_vars_filename_def tfvars_tmpl_filename_def)
  qed
  have bdef: "?b = append_root_module_block ?X (Task ?i) (variables_keys (Variables ?i))"
    by (simp add: main_tf_body_def Let_def)
  obtain mb where mb: "blocks_of ''module'' ?b = blocks_of ''module'' ?X @ [([task_name (Task ?i)], mb)]"
    and va: "\<forall>v \<in> set (variables_keys (Variables ?i)). attr_of mb v = Some (HTraversal [''var'', v])"
    unfolding bdef using module_block_of by blast
  have nomod: "blocks_of ''module'' ?X = []"
    by (simp add: blocks_of_terraform_block)
  have prov: "map fst (blocks_of ''provider'' ?b) = map (\<lambda>p. [nb_name p]) (providers ?i)"
    unfolding bdef by (simp add: blocks_of_provider_blocks blocks_of_terraform_block)
  have "map (\<lambda>p. [nb_name p]) (providers ?i) =
        map (\<lambda>n. [n]) (sort (map (\<lambda>p. nb_name (new_named_block p)) (Providers d)))"
  proof -
    have "map (\<lambda>p. [nb_name p]) (providers ?i) = map (\<lambda>n. [n]) (map nb_name (providers ?i))" by simp
    also have "map nb_name (providers ?i) = sort (map nb_name (map new_named_block (Providers d)))"
      by (simp add: init_input_fields sort_key_names)
    finally show ?thesis by (simp add: o_def)
  qed
  moreover have "set (variables_keys (Variables d)) = fst ` set (Variables d)"
    by (simp add: variables_keys_def)
  ultimately show ?thesis
    using w prov mb nomod va by (simp add: init_input_fields)
qed

theorem written_main_tf_composition_witness:
  "(Map.empty root_filename = (None :: file_info option) \<or> False) \<and>
   (\<exists>b. snd (init_root_module fault_free (init_input ((db_task_input [])\<lparr>Providers := [[(''local'', RMap [])], [(''aws'', RMap [])]],
                                           Variables := [(''region'', RStr ''eu'')]\<rparr>)) 420 False Map.empty root_file_funcs) root_filename =
          Some \<lparr>f_content = [Bytes root_preamble, HclBody b], f_mode = 420, f_synced = True\<rparr> \<and>
        map fst (blocks_of ''provider'' b) = [[''aws''], [''local'']] \<and>
        map fst (blocks_of ''module'' b) = [[''db_task'']] \<and>
        attr_of (snd (hd (blocks_of ''module'' b))) ''region'' = Some (HTraversal [''var'', ''region'']))"
  using written_main_tf_composition [of Map.empty False "(db_task_input [])\<lparr>Providers := [[(''local'', RMap [])], [(''aws'', RMap [])]],
                                           Variables := [(''region'', RStr ''eu'')]\<rparr>" 420]
  by (simp add: db_task_input_def new_named_block_def)

end
